theory Spec2Isabelle
  imports Complex_Main "HOL-Library.Word"
begin

section \<open>JavaScript values and strings\<close>

text \<open>
  A JavaScript string is a sequence of 16-bit code units. The program's string literals
  are ASCII, written here through \<open>js\<close>; the left-to-right mark of the system-message
  patterns is the code unit \<open>0x200E\<close>.
\<close>

type_synonym unit16 = "16 word"
type_synonym jsstring = "unit16 list"

definition js :: "string \<Rightarrow> jsstring" where
  "js s = map of_char s"

text \<open>
  The values the program handles: what \<open>express.json()\<close> and \<open>JSON.parse\<close> produce,
  and \<open>undefined\<close>. An object is the list of its own properties, the first binding of a
  name being the property's value. A number is given by its value (JSON carries no NaN);
  the program only looks at whether it is zero.
\<close>

datatype jsval =
    JUndefined
  | JNull
  | JBool bool
  | JNum rat
  | JStr jsstring
  | JArr "jsval list"
  | JObj "(jsstring \<times> jsval) list"

text \<open>
  What the program can throw. \<open>TypeError\<close>: a property read on \<open>undefined\<close> or
  \<open>null\<close>, a call of something that is not a function, an object that does not convert
  to a string. \<open>SyntaxError\<close>: \<open>JSON.parse\<close>. \<open>AxiosError\<close>: a rejected
  \<open>axios.post\<close>.
\<close>

datatype exn = TypeError | SyntaxError | AxiosError

definition bindE :: "exn + 'a \<Rightarrow> ('a \<Rightarrow> exn + 'b) \<Rightarrow> exn + 'b" where
  "bindE x f = (case x of Inl e \<Rightarrow> Inl e | Inr v \<Rightarrow> f v)"

text \<open>ToBoolean.\<close>

fun truthy :: "jsval \<Rightarrow> bool" where
  "truthy JUndefined = False"
| "truthy JNull = False"
| "truthy (JBool b) = b"
| "truthy (JNum r) = (r \<noteq> 0)"
| "truthy (JStr s) = (s \<noteq> [])"
| "truthy (JArr xs) = True"
| "truthy (JObj fs) = True"

fun nullish :: "jsval \<Rightarrow> bool" where
  "nullish JUndefined = True"
| "nullish JNull = True"
| "nullish v = False"

text \<open>
  \<open>v.k\<close> for the property names the program reads (\<open>event\<close>, \<open>payload\<close>, \<open>body\<close>,
  \<open>text\<close>, \<open>caption\<close>, \<open>fromMe\<close>, \<open>from_me\<close>, \<open>chatId\<close>, \<open>from\<close>, \<open>chat\<close>, \<open>id\<close>,
  \<open>_data\<close>, \<open>notifyName\<close>, \<open>pushName\<close>, \<open>name\<close>, \<open>choices\<close>, \<open>message\<close>, \<open>content\<close>,
  \<open>isActionItem\<close>, \<open>responsible\<close>, \<open>urgency\<close>, \<open>due\<close>): none of them is inherited from
  a prototype, so the read is an own-property lookup on an object and \<open>undefined\<close> on
  an array, a string, a number or a boolean. On \<open>undefined\<close> and \<open>null\<close> it throws.
\<close>

fun get_prop :: "jsval \<Rightarrow> jsstring \<Rightarrow> exn + jsval" where
  "get_prop JUndefined k = Inl TypeError"
| "get_prop JNull k = Inl TypeError"
| "get_prop (JObj fs) k = Inr (case map_of fs k of None \<Rightarrow> JUndefined | Some v \<Rightarrow> v)"
| "get_prop v k = Inr JUndefined"

text \<open>\<open>x || y\<close>: \<open>y\<close> is evaluated, and can throw, only when \<open>x\<close> is falsy.\<close>

definition orE :: "exn + jsval \<Rightarrow> exn + jsval \<Rightarrow> exn + jsval" where
  "orE x y = bindE x (\<lambda>a. if truthy a then Inr a else y)"

text \<open>\<open>x?.k\<close>: \<open>undefined\<close> when \<open>x\<close> is \<open>undefined\<close> or \<open>null\<close>.\<close>

definition optE :: "exn + jsval \<Rightarrow> jsstring \<Rightarrow> exn + jsval" where
  "optE x k = bindE x (\<lambda>v. if nullish v then Inr JUndefined else get_prop v k)"

section \<open>String operations\<close>

text \<open>
  WhiteSpace and LineTerminator of ECMAScript: what \<open>String.prototype.trim\<close> strips and
  what \<open>\s\<close> matches.
\<close>

definition is_line_terminator :: "unit16 \<Rightarrow> bool" where
  "is_line_terminator c = (c = 0x000A \<or> c = 0x000D \<or> c = 0x2028 \<or> c = 0x2029)"

definition is_ws :: "unit16 \<Rightarrow> bool" where
  "is_ws c = (c = 0x0009 \<or> c = 0x000B \<or> c = 0x000C \<or> c = 0x0020 \<or> c = 0x00A0
     \<or> c = 0x1680 \<or> (0x2000 \<le> c \<and> c \<le> 0x200A) \<or> c = 0x202F \<or> c = 0x205F
     \<or> c = 0x3000 \<or> c = 0xFEFF \<or> is_line_terminator c)"

definition trim :: "jsstring \<Rightarrow> jsstring" where
  "trim s = rev (dropWhile is_ws (rev (dropWhile is_ws s)))"

text \<open>\<open>s.includes(t)\<close> on strings: \<open>t\<close> occurs in \<open>s\<close> at some position.\<close>

fun starts_with :: "jsstring \<Rightarrow> jsstring \<Rightarrow> bool" where
  "starts_with s [] = True"
| "starts_with [] (c # t) = False"
| "starts_with (d # s) (c # t) = (d = c \<and> starts_with s t)"

fun includes_str :: "jsstring \<Rightarrow> jsstring \<Rightarrow> bool" where
  "includes_str [] t = (t = [])"
| "includes_str (d # s) t = (starts_with (d # s) t \<or> includes_str s t)"

text \<open>
  \<open>v.includes(t)\<close> with a string \<open>t\<close>: substring containment on a string, membership on
  an array (\<open>Array.prototype.includes\<close>); every other value has no callable \<open>includes\<close>,
  and the call throws.
\<close>

fun js_includes :: "jsval \<Rightarrow> jsstring \<Rightarrow> exn + bool" where
  "js_includes (JStr s) t = Inr (includes_str s t)"
| "js_includes (JArr xs) t = Inr (JStr t \<in> set xs)"
| "js_includes v t = Inl TypeError"

text \<open>\<open>v.split('@')[0]\<close>: the part of a string before its first \<open>@\<close>; not callable otherwise.\<close>

fun split_at_0 :: "jsval \<Rightarrow> exn + jsval" where
  "split_at_0 (JStr s) = Inr (JStr (takeWhile (\<lambda>c. c \<noteq> 0x40) s))"
| "split_at_0 v = Inl TypeError"

text \<open>
  Whether \<open>`${v}`\<close> throws. ToString of an object calls its \<open>toString\<close>; an own property
  of that name, which in parsed JSON is never a function, hides the inherited one, and
  the conversion throws. An array joins the conversions of its elements, \<open>null\<close> and
  \<open>undefined\<close> counting as empty.
\<close>

fun to_string_ok :: "jsval \<Rightarrow> bool" where
  "to_string_ok (JObj fs) = (map_of fs (js ''toString'') = None)"
| "to_string_ok (JArr xs) = list_all to_string_ok xs"
| "to_string_ok v = True"

section \<open>The message filter\<close>

text \<open>
  The regular expressions of \<open>SYSTEM_MESSAGE_PATTERNS\<close>. All start with \<open>^\<close>, so a
  pattern is a sequence of items matched from the start of the string, and a flag saying
  whether it ends with \<open>$\<close>. Without the \<open>m\<close> and \<open>s\<close> flags, \<open>^\<close> and \<open>$\<close> are the ends of
  the string and \<open>.\<close> is any code unit but a line terminator.
\<close>

datatype item = Lit unit16 | DotStar | WsStar

record pattern =
  items :: "item list"
  dollar :: bool
  ignore_case :: bool

text \<open>
  Canonicalize of a regular expression with the \<open>i\<close> flag and without \<open>u\<close>, for the code
  units of the patterns: ASCII letters, the space, the hyphen and the left-to-right mark.
  A code unit outside ASCII never canonicalizes to one of these, so comparing the
  upper-cased ASCII letters is the comparison the engine makes.
\<close>

definition canonicalize :: "unit16 \<Rightarrow> unit16" where
  "canonicalize c = (if 0x61 \<le> c \<and> c \<le> 0x7A then c - 0x20 else c)"

definition lit_eq :: "bool \<Rightarrow> unit16 \<Rightarrow> unit16 \<Rightarrow> bool" where
  "lit_eq ic p c = (if ic then canonicalize p = canonicalize c else p = c)"

fun rx_match :: "bool \<Rightarrow> bool \<Rightarrow> item list \<Rightarrow> jsstring \<Rightarrow> bool" where
  "rx_match ic dl [] s = (if dl then s = [] else True)"
| "rx_match ic dl (Lit p # r) [] = False"
| "rx_match ic dl (Lit p # r) (c # s) = (lit_eq ic p c \<and> rx_match ic dl r s)"
| "rx_match ic dl (DotStar # r) [] = rx_match ic dl r []"
| "rx_match ic dl (DotStar # r) (c # s) =
     (rx_match ic dl r (c # s) \<or> (\<not> is_line_terminator c \<and> rx_match ic dl (DotStar # r) s))"
| "rx_match ic dl (WsStar # r) [] = rx_match ic dl r []"
| "rx_match ic dl (WsStar # r) (c # s) =
     (rx_match ic dl r (c # s) \<or> (is_ws c \<and> rx_match ic dl (WsStar # r) s))"

text \<open>\<open>pattern.test(body)\<close>.\<close>

definition test :: "pattern \<Rightarrow> jsstring \<Rightarrow> bool" where
  "test p s = rx_match (ignore_case p) (dollar p) (items p) s"

definition lrm :: unit16 where
  "lrm = 0x200E"

definition lits :: "string \<Rightarrow> item list" where
  "lits s = map Lit (js s)"

definition SYSTEM_MESSAGE_PATTERNS :: "pattern list" where
  "SYSTEM_MESSAGE_PATTERNS = [
     \<lparr>items = Lit lrm # DotStar # lits ''changed the group'' @ [DotStar], dollar = True, ignore_case = True\<rparr>,
     \<lparr>items = Lit lrm # DotStar # lits ''added you'', dollar = True, ignore_case = True\<rparr>,
     \<lparr>items = Lit lrm # DotStar # lits ''added'' @ [DotStar], dollar = True, ignore_case = True\<rparr>,
     \<lparr>items = Lit lrm # DotStar # lits ''removed'' @ [DotStar], dollar = True, ignore_case = True\<rparr>,
     \<lparr>items = Lit lrm # DotStar # lits ''left'', dollar = True, ignore_case = True\<rparr>,
     \<lparr>items = Lit lrm # DotStar # lits ''created group'', dollar = False, ignore_case = True\<rparr>,
     \<lparr>items = lits ''Messages and calls are end-to-end encrypted'', dollar = False, ignore_case = True\<rparr>,
     \<lparr>items = lits ''Waiting for this message'', dollar = False, ignore_case = True\<rparr>,
     \<lparr>items = lits ''This message was deleted'', dollar = False, ignore_case = True\<rparr>,
     \<lparr>items = lits ''You deleted this message'', dollar = False, ignore_case = True\<rparr>,
     \<lparr>items = lits ''null'', dollar = True, ignore_case = True\<rparr>,
     \<lparr>items = [WsStar], dollar = True, ignore_case = False\<rparr>
   ]"

text \<open>
  \<open>isSystemMessage(body)\<close>. A falsy body is a system message; a truthy body that is not a
  string has no \<open>trim\<close> to call.
\<close>

fun isSystemMessage :: "jsval \<Rightarrow> exn + bool" where
  "isSystemMessage (JStr s) =
     Inr (s = [] \<or> trim s = [] \<or> list_ex (\<lambda>p. test p s) SYSTEM_MESSAGE_PATTERNS)"
| "isSystemMessage v = (if truthy v then Inl TypeError else Inr True)"

section \<open>The outside world\<close>

text \<open>
  The two HTTP services and the clock are parameters. A request to the completion
  service is determined by the prompt, which is a fixed text around the message and the
  source name, so its outcome is a function of these two; a request to the spreadsheet
  endpoint is determined by the record posted. \<open>Response st d\<close> is a response of status
  \<open>st\<close> whose body axios delivers as \<open>response.data = d\<close>. \<open>JSON_parse\<close> is the built-in
  \<open>JSON.parse\<close>, \<open>None\<close> where it throws a SyntaxError.
\<close>

datatype http_result = NetworkError | Response nat jsval

record env =
  openai_post :: "jsval \<Rightarrow> jsval \<Rightarrow> http_result"
  sheets_post :: "jsval \<Rightarrow> http_result"
  JSON_parse :: "jsstring \<Rightarrow> jsval option"
  now_iso :: jsstring

text \<open>The outbound calls a request makes, in order.\<close>

datatype call = OpenAI_call jsval jsval | Sheets_call jsval

text \<open>\<open>await axios.post(...)\<close>: rejects unless the response status is 2xx.\<close>

definition axios_post :: "http_result \<Rightarrow> exn + jsval" where
  "axios_post r = (case r of
       NetworkError \<Rightarrow> Inl AxiosError
     | Response st d \<Rightarrow> if 200 \<le> st \<and> st < 300 then Inr d else Inl AxiosError)"

section \<open>The classifier\<close>

text \<open>\<open>v[0]\<close>.\<close>

fun index0 :: "jsval \<Rightarrow> exn + jsval" where
  "index0 JUndefined = Inl TypeError"
| "index0 JNull = Inl TypeError"
| "index0 (JArr xs) = Inr (case xs of [] \<Rightarrow> JUndefined | x # _ \<Rightarrow> x)"
| "index0 (JStr s) = Inr (case s of [] \<Rightarrow> JUndefined | c # _ \<Rightarrow> JStr [c])"
| "index0 (JObj fs) = Inr (case map_of fs (js ''0'') of None \<Rightarrow> JUndefined | Some v \<Rightarrow> v)"
| "index0 v = Inr JUndefined"

text \<open>\<open>v.trim()\<close>.\<close>

fun js_trim :: "jsval \<Rightarrow> exn + jsstring" where
  "js_trim (JStr s) = Inr (trim s)"
| "js_trim v = Inl TypeError"

text \<open>
  \<open>content.match(/\{[\s\S]*\}/)\<close>: the match starts at the first \<open>{\<close>; the class
  \<open>[\s\S]\<close> is every code unit and the star is greedy, so it ends at the last \<open>}\<close>
  after it. No match is \<open>null\<close>.
\<close>

definition json_match :: "jsstring \<Rightarrow> jsstring option" where
  "json_match content =
     (let r = dropWhile (\<lambda>c. c \<noteq> 0x7B) content
      in if 0x7D \<in> set r then Some (rev (dropWhile (\<lambda>c. c \<noteq> 0x7D) (rev r))) else None)"

definition not_action_item :: jsval where
  "not_action_item = JObj [(js ''isActionItem'', JBool False)]"

text \<open>\<open>response.data.choices[0].message.content.trim()\<close>.\<close>

definition response_content :: "jsval \<Rightarrow> exn + jsstring" where
  "response_content data =
     bindE (get_prop data (js ''choices'')) (\<lambda>choices.
     bindE (index0 choices) (\<lambda>choice.
     bindE (get_prop choice (js ''message'')) (\<lambda>msg.
     bindE (get_prop msg (js ''content'')) (\<lambda>c.
     js_trim c))))"

text \<open>The body of the \<open>try\<close> of \<open>classifyWithGPT\<close>.\<close>

definition classify_try :: "env \<Rightarrow> jsval \<Rightarrow> jsval \<Rightarrow> exn + jsval" where
  "classify_try env message sourceName =
     bindE (axios_post (openai_post env message sourceName)) (\<lambda>data.
     bindE (response_content data) (\<lambda>content.
       case json_match content of
         Some jsonMatch \<Rightarrow>
           (case JSON_parse env jsonMatch of None \<Rightarrow> Inl SyntaxError | Some v \<Rightarrow> Inr v)
       | None \<Rightarrow> Inr not_action_item))"

text \<open>
  \<open>classifyWithGPT(message, sourceName)\<close>. The prompt is built before the \<open>try\<close>, so a
  conversion that throws there is not caught; everything after it is.
\<close>

definition classifyWithGPT :: "env \<Rightarrow> jsval \<Rightarrow> jsval \<Rightarrow> (exn + jsval) \<times> call list" where
  "classifyWithGPT env message sourceName =
     (if \<not> (to_string_ok sourceName \<and> to_string_ok message) then (Inl TypeError, [])
      else (case classify_try env message sourceName of
              Inl e \<Rightarrow> Inr not_action_item
            | Inr v \<Rightarrow> Inr v,
            [OpenAI_call message sourceName]))"

section \<open>The sink\<close>

definition writeToGoogleSheets :: "env \<Rightarrow> jsval \<Rightarrow> bool \<times> call list" where
  "writeToGoogleSheets env data =
     (case axios_post (sheets_post env data) of Inl e \<Rightarrow> False | Inr d \<Rightarrow> True,
      [Sheets_call data])"

section \<open>The webhook handler\<close>

text \<open>What \<open>res\<close> sends: \<open>res.json(v)\<close>, or \<open>res.status(500).json({status: 'error',
  message: error.message})\<close> for the exception caught.\<close>

datatype http_response = Ok200 jsval | Err500 exn

definition event_of :: "jsval \<Rightarrow> exn + jsval" where
  "event_of payload = orE (get_prop payload (js ''event'')) (Inr (JStr (js ''message'')))"

definition messageData_of :: "jsval \<Rightarrow> exn + jsval" where
  "messageData_of payload = orE (get_prop payload (js ''payload'')) (Inr payload)"

definition body_of :: "jsval \<Rightarrow> exn + jsval" where
  "body_of messageData =
     orE (orE (orE (get_prop messageData (js ''body'')) (get_prop messageData (js ''text'')))
              (get_prop messageData (js ''caption'')))
         (Inr (JStr []))"

definition fromMe_of :: "jsval \<Rightarrow> exn + jsval" where
  "fromMe_of messageData =
     orE (orE (get_prop messageData (js ''fromMe'')) (get_prop messageData (js ''from_me'')))
         (Inr (JBool False))"

definition chatId_of :: "jsval \<Rightarrow> exn + jsval" where
  "chatId_of messageData =
     orE (orE (orE (get_prop messageData (js ''chatId'')) (get_prop messageData (js ''from'')))
              (optE (get_prop messageData (js ''chat'')) (js ''id'')))
         (Inr (JStr []))"

definition sourceName_of :: "jsval \<Rightarrow> jsval \<Rightarrow> exn + jsval" where
  "sourceName_of messageData chatId =
     orE (orE (orE (orE (orE (optE (get_prop messageData (js ''_data'')) (js ''notifyName''))
                             (get_prop messageData (js ''notifyName'')))
                        (get_prop messageData (js ''pushName'')))
                   (optE (get_prop messageData (js ''chat'')) (js ''name'')))
              (split_at_0 chatId))
         (Inr (JStr (js ''Unknown'')))"

text \<open>
  The \<open>console.log\<close> before the classification converts \<open>sourceName\<close> to a string and
  calls \<open>body.substring\<close>.
\<close>

fun log_processing :: "jsval \<Rightarrow> jsval \<Rightarrow> exn + unit" where
  "log_processing sourceName (JStr b) = (if to_string_ok sourceName then Inr () else Inl TypeError)"
| "log_processing sourceName v = Inl TypeError"

text \<open>
  The handler up to the classification: either a skip, with its reason, or the body,
  the chat id and the source name to go on with.
\<close>

datatype step = Skip jsstring | Proceed jsval jsval jsval

definition webhook_filter :: "jsval \<Rightarrow> exn + step" where
  "webhook_filter payload =
     bindE (event_of payload) (\<lambda>event.
     bindE (js_includes event (js ''message'')) (\<lambda>inc.
     if \<not> inc then Inr (Skip (js ''non-message event'')) else
     bindE (messageData_of payload) (\<lambda>messageData.
     bindE (body_of messageData) (\<lambda>body.
     bindE (fromMe_of messageData) (\<lambda>fromMe.
     if truthy fromMe then Inr (Skip (js ''outgoing message'')) else
     bindE (isSystemMessage body) (\<lambda>sys.
     if sys then Inr (Skip (js ''system or empty message'')) else
     bindE (chatId_of messageData) (\<lambda>chatId.
     bindE (sourceName_of messageData chatId) (\<lambda>sourceName.
     bindE (log_processing sourceName body) (\<lambda>_.
     Inr (Proceed body chatId sourceName))))))))))"

definition skipped :: "jsstring \<Rightarrow> jsval" where
  "skipped reason = JObj [(js ''status'', JStr (js ''skipped'')), (js ''reason'', JStr reason)]"

definition processed_false :: jsval where
  "processed_false =
     JObj [(js ''status'', JStr (js ''processed'')), (js ''isActionItem'', JBool False)]"

definition processed_true :: "jsval \<Rightarrow> jsval" where
  "processed_true classification =
     JObj [(js ''status'', JStr (js ''processed'')), (js ''isActionItem'', JBool True),
           (js ''classification'', classification)]"

definition sheetData :: "env \<Rightarrow> jsval \<Rightarrow> jsval \<Rightarrow> jsval \<Rightarrow> jsval \<Rightarrow> exn + jsval" where
  "sheetData env sourceName body chatId classification =
     bindE (orE (get_prop classification (js ''responsible'')) (Inr (JStr (js ''Unknown'')))) (\<lambda>responsible.
     bindE (orE (get_prop classification (js ''urgency'')) (Inr (JStr (js ''Normal'')))) (\<lambda>urgency.
     bindE (orE (get_prop classification (js ''due'')) (Inr (JStr (js ''None'')))) (\<lambda>due.
     Inr (JObj [(js ''timestamp'', JStr (now_iso env)),
                (js ''source'', sourceName),
                (js ''message'', body),
                (js ''responsible'', responsible),
                (js ''urgency'', urgency),
                (js ''due'', due),
                (js ''status'', JStr (js ''Open'')),
                (js ''chatId'', chatId)]))))"

text \<open>
  The handler of \<open>POST /webhook\<close> on the request body \<open>payload\<close>: the response and the
  outbound calls made. Every exception is caught by the handler's \<open>try\<close>.
\<close>

definition webhook :: "env \<Rightarrow> jsval \<Rightarrow> http_response \<times> call list" where
  "webhook env payload =
     (case webhook_filter payload of
        Inl e \<Rightarrow> (Err500 e, [])
      | Inr (Skip reason) \<Rightarrow> (Ok200 (skipped reason), [])
      | Inr (Proceed body chatId sourceName) \<Rightarrow>
          (case classifyWithGPT env body sourceName of
             (Inl e, cs) \<Rightarrow> (Err500 e, cs)
           | (Inr classification, cs) \<Rightarrow>
               (case get_prop classification (js ''isActionItem'') of
                  Inl e \<Rightarrow> (Err500 e, cs)
                | Inr a \<Rightarrow>
                    if truthy a then
                      (case sheetData env sourceName body chatId classification of
                         Inl e \<Rightarrow> (Err500 e, cs)
                       | Inr d \<Rightarrow>
                           (case writeToGoogleSheets env d of
                              (written, cs') \<Rightarrow> (Ok200 (processed_true classification), cs @ cs')))
                    else (Ok200 processed_false, cs))))"

section \<open>The specification's wording, and sample data\<close>

text \<open>
  The outgoing flag as the specification words it: the first of \<open>fromMe\<close> and \<open>from_me\<close>
  that is defined, \<open>false\<close> when neither is.
\<close>

definition fromMe_first_defined :: "jsval \<Rightarrow> exn + jsval" where
  "fromMe_first_defined messageData =
     bindE (get_prop messageData (js ''fromMe'')) (\<lambda>a.
     if a \<noteq> JUndefined then Inr a else
     bindE (get_prop messageData (js ''from_me'')) (\<lambda>b.
     if b \<noteq> JUndefined then Inr b else Inr (JBool False)))"

text \<open>
  The source name as the specification words it: the first non-empty text of a chain,
  a default when all are empty. A field that is absent counts as the empty text.
\<close>

fun first_nonempty :: "jsstring list \<Rightarrow> jsstring \<Rightarrow> jsstring" where
  "first_nonempty [] d = d"
| "first_nonempty (x # xs) d = (if x \<noteq> [] then x else first_nonempty xs d)"

fun text_of :: "jsval \<Rightarrow> jsstring" where
  "text_of (JStr s) = s"
| "text_of v = []"

fun absent_or_string :: "jsval \<Rightarrow> bool" where
  "absent_or_string (JStr s) = True"
| "absent_or_string JUndefined = True"
| "absent_or_string JNull = True"
| "absent_or_string v = False"

text \<open>
  The failures of the classifier the specification lists: a transport error, a response
  that is not 2xx, an output without a \<open>{...}\<close> substring, a substring that does not
  parse. (A 2xx response without a text at \<open>choices[0].message.content\<close> is caught by the
  same \<open>catch\<close>; it is not one of the four.)
\<close>

definition classifier_failed :: "env \<Rightarrow> jsval \<Rightarrow> jsval \<Rightarrow> bool" where
  "classifier_failed env message sourceName =
     (case openai_post env message sourceName of
        NetworkError \<Rightarrow> True
      | Response st d \<Rightarrow>
          st < 200 \<or> 300 \<le> st \<or>
          (case response_content d of
             Inl e \<Rightarrow> False
           | Inr c \<Rightarrow>
               (case json_match c of None \<Rightarrow> True | Some j \<Rightarrow> JSON_parse env j = None)))"

text \<open>
  The values of \<open>event\<close> that are kept by \<open>payload.event || 'message'\<close> and have no
  \<open>includes\<close> to call: a number other than zero, \<open>true\<close>, an object that is not an array.
\<close>

fun throwing_event :: "jsval \<Rightarrow> bool" where
  "throwing_event (JNum r) = (r \<noteq> 0)"
| "throwing_event (JBool b) = b"
| "throwing_event (JObj fs) = True"
| "throwing_event v = False"

text \<open>
  Case-insensitive equality of texts as the specification means it: equal once the
  ASCII capitals are replaced by their small letters.
\<close>

definition to_lower :: "unit16 \<Rightarrow> unit16" where
  "to_lower c = (if 0x41 \<le> c \<and> c \<le> 0x5A then c + 0x20 else c)"

definition same_ignoring_case :: "jsstring \<Rightarrow> jsstring \<Rightarrow> bool" where
  "same_ignoring_case k t = (map to_lower k = map to_lower t)"

text \<open>
  A text that \<open>.*\<close> can run over: one without a line feed, a carriage return, a line
  separator or a paragraph separator.
\<close>

definition no_line_break :: "jsstring \<Rightarrow> bool" where
  "no_line_break a = list_all (\<lambda>c. c \<noteq> 0x000A \<and> c \<noteq> 0x000D \<and> c \<noteq> 0x2028 \<and> c \<noteq> 0x2029) a"


text \<open>
  A response body of the completion service whose \<open>choices[0].message.content\<close> is
  the text given.
\<close>

definition completion :: "jsstring \<Rightarrow> jsval" where
  "completion output =
     JObj [(js ''choices'', JArr [JObj [(js ''message'', JObj [(js ''content'', JStr output)])]])]"

text \<open>
  An environment for evaluating examples: the completion service and the spreadsheet
  endpoint answer every request alike.
\<close>

definition sample_env :: "http_result \<Rightarrow> http_result \<Rightarrow> (jsstring \<Rightarrow> jsval option) \<Rightarrow> env" where
  "sample_env llm sink parse =
     \<lparr>openai_post = (\<lambda>message sourceName. llm), sheets_post = (\<lambda>data. sink),
      JSON_parse = parse, now_iso = js ''2024-05-01T10:00:00.000Z''\<rparr>"

text \<open>
  The classification of the specification's end-to-end example, the JSON text of it, and
  \<open>JSON.parse\<close> at that text (every other text is rejected here).
\<close>

definition sample_classification :: jsval where
  "sample_classification =
     JObj [(js ''isActionItem'', JBool True), (js ''responsible'', JStr (js ''Alice'')),
           (js ''urgency'', JStr (js ''Urgent'')), (js ''due'', JStr (js ''Monday'')),
           (js ''summary'', JStr (js ''Send contract''))]"

definition sample_members :: jsstring where
  \<open>sample_members = js ''"isActionItem":true,"responsible":"Alice","urgency":"Urgent","due":"Monday","summary":"Send contract"''\<close>

definition sample_json :: jsstring where
  "sample_json = 0x7B # sample_members @ [0x7D]"

definition sample_parse :: "jsstring \<Rightarrow> jsval option" where
  "sample_parse s = (if s = sample_json then Some sample_classification else None)"

definition sample_event :: jsval where
  "sample_event =
     JObj [(js ''event'', JStr (js ''message'')),
           (js ''payload'',
            JObj [(js ''body'', JStr (js ''Please send the contract by Monday, urgent!'')),
                  (js ''fromMe'', JBool False),
                  (js ''chatId'', JStr (js ''999@c.us'')),
                  (js ''notifyName'', JStr (js ''Alice''))])]"

text \<open>The record of that example, at the clock of \<open>sample_env\<close>.\<close>

definition sample_record :: jsval where
  "sample_record =
     JObj [(js ''timestamp'', JStr (js ''2024-05-01T10:00:00.000Z'')),
           (js ''source'', JStr (js ''Alice'')),
           (js ''message'', JStr (js ''Please send the contract by Monday, urgent!'')),
           (js ''responsible'', JStr (js ''Alice'')),
           (js ''urgency'', JStr (js ''Urgent'')),
           (js ''due'', JStr (js ''Monday'')),
           (js ''status'', JStr (js ''Open'')),
           (js ''chatId'', JStr (js ''999@c.us''))]"

text \<open>
  A classification whose \<open>responsible\<close> and \<open>due\<close> are present and empty, its JSON
  text, and \<open>JSON.parse\<close> at that text.
\<close>

definition blank_classification :: jsval where
  "blank_classification =
     JObj [(js ''isActionItem'', JBool True), (js ''responsible'', JStr []),
           (js ''urgency'', JStr (js ''Low'')), (js ''due'', JStr []),
           (js ''summary'', JStr (js ''Call back''))]"

definition blank_json :: jsstring where
  \<open>blank_json = js ''{"isActionItem":true,"responsible":"","urgency":"Low","due":"","summary":"Call back"}''\<close>

definition blank_parse :: "jsstring \<Rightarrow> jsval option" where
  "blank_parse s = (if s = blank_json then Some blank_classification else None)"

section \<open>Properties of the message filter\<close>

lemma trim_blank: "(\<forall>c\<in>set s. is_ws c) \<Longrightarrow> trim s = []"
proof -
  assume "\<forall>c\<in>set s. is_ws c"
  then have d: "dropWhile is_ws s = []" by (induction s) auto
  show ?thesis unfolding trim_def d by simp
qed

text \<open>
  C3. A body made only of whitespace code units (those \<open>trim\<close> strips), the empty
  string included, is a system message.
\<close>

theorem isSystemMessage_blank:
  "(\<forall>c\<in>set s. is_ws c) \<Longrightarrow> isSystemMessage (JStr s) = Inr True"
  by (simp add: trim_blank)

theorem isSystemMessage_blank_witness:
  "list_all is_ws [0x20, 0x09, 0x0A, 0xA0, 0x2003]
   \<and> isSystemMessage (JStr [0x20, 0x09, 0x0A, 0xA0, 0x2003]) = Inr True
   \<and> isSystemMessage (JStr []) = Inr True"
proof -
  have h: "\<forall>c\<in>set [0x20, 0x09, 0x0A, 0xA0, 0x2003 :: unit16]. is_ws c"
    by (simp add: is_ws_def is_line_terminator_def)
  have e: "\<forall>c\<in>set ([] :: jsstring). is_ws c"
    by simp
  show ?thesis
    using h isSystemMessage_blank [OF h] isSystemMessage_blank [OF e] by simp
qed

text \<open>
  What the matcher accepts: \<open>.*\<close> takes any run free of line terminators, a literal
  text takes as many code units, equal up to the case flag.
\<close>

lemma rx_match_DotStar:
  "rx_match ic dl (DotStar # r) s \<longleftrightarrow>
     (\<exists>a b. s = a @ b \<and> (\<forall>c\<in>set a. \<not> is_line_terminator c) \<and> rx_match ic dl r b)"
proof (induction s)
  case Nil
  then show ?case by simp
next
  case (Cons c s)
  show ?case
  proof
    assume "rx_match ic dl (DotStar # r) (c # s)"
    then consider "rx_match ic dl r (c # s)"
      | "\<not> is_line_terminator c" "rx_match ic dl (DotStar # r) s"
      by auto
    then show "\<exists>a b. c # s = a @ b \<and> (\<forall>c\<in>set a. \<not> is_line_terminator c) \<and> rx_match ic dl r b"
    proof cases
      case 1
      then have "c # s = [] @ (c # s) \<and> (\<forall>x\<in>set []. \<not> is_line_terminator x) \<and> rx_match ic dl r (c # s)"
        by simp
      then show ?thesis by blast
    next
      case 2
      then obtain a b where ab: "s = a @ b" "\<forall>x\<in>set a. \<not> is_line_terminator x" "rx_match ic dl r b"
        using Cons.IH by blast
      with 2 have "c # s = (c # a) @ b \<and> (\<forall>x\<in>set (c # a). \<not> is_line_terminator x) \<and> rx_match ic dl r b"
        by simp
      then show ?thesis by blast
    qed
  next
    assume "\<exists>a b. c # s = a @ b \<and> (\<forall>c\<in>set a. \<not> is_line_terminator c) \<and> rx_match ic dl r b"
    then obtain a b where ab: "c # s = a @ b" "\<forall>x\<in>set a. \<not> is_line_terminator x" "rx_match ic dl r b"
      by blast
    show "rx_match ic dl (DotStar # r) (c # s)"
    proof (cases a)
      case Nil
      with ab have "rx_match ic dl r (c # s)" by simp
      then show ?thesis by simp
    next
      case (Cons x a')
      with ab have "x = c" "s = a' @ b" "\<not> is_line_terminator c" "\<forall>x\<in>set a'. \<not> is_line_terminator x"
        by auto
      with ab(3) Cons.IH show ?thesis by auto
    qed
  qed
qed

lemma rx_match_lits:
  "rx_match ic dl (map Lit t @ r) s \<longleftrightarrow>
     (\<exists>u b. s = u @ b \<and> list_all2 (lit_eq ic) t u \<and> rx_match ic dl r b)"
proof (induction t arbitrary: s)
  case Nil
  then show ?case by simp
next
  case (Cons p t)
  show ?case
  proof (cases s)
    case Nil
    then show ?thesis by (simp add: list_all2_Cons1)
  next
    case (Cons c s')
    have "rx_match ic dl (map Lit (p # t) @ r) s \<longleftrightarrow>
            lit_eq ic p c \<and> (\<exists>u b. s' = u @ b \<and> list_all2 (lit_eq ic) t u \<and> rx_match ic dl r b)"
      using Cons Cons.IH [of s'] by simp
    also have "\<dots> \<longleftrightarrow> (\<exists>u b. s = u @ b \<and> list_all2 (lit_eq ic) (p # t) u \<and> rx_match ic dl r b)"
    proof
      assume "lit_eq ic p c \<and> (\<exists>u b. s' = u @ b \<and> list_all2 (lit_eq ic) t u \<and> rx_match ic dl r b)"
      then obtain u b where "lit_eq ic p c" "s' = u @ b" "list_all2 (lit_eq ic) t u" "rx_match ic dl r b"
        by blast
      with Cons have "s = (c # u) @ b \<and> list_all2 (lit_eq ic) (p # t) (c # u) \<and> rx_match ic dl r b"
        by simp
      then show "\<exists>u b. s = u @ b \<and> list_all2 (lit_eq ic) (p # t) u \<and> rx_match ic dl r b"
        by blast
    next
      assume "\<exists>u b. s = u @ b \<and> list_all2 (lit_eq ic) (p # t) u \<and> rx_match ic dl r b"
      then obtain u b where ub: "s = u @ b" "list_all2 (lit_eq ic) (p # t) u" "rx_match ic dl r b"
        by blast
      from ub(2) obtain z zs where z: "u = z # zs" "lit_eq ic p z" "list_all2 (lit_eq ic) t zs"
        by (auto simp: list_all2_Cons1)
      with ub Cons have "z = c" "s' = zs @ b" by auto
      with z ub(3) show "lit_eq ic p c \<and> (\<exists>u b. s' = u @ b \<and> list_all2 (lit_eq ic) t u \<and> rx_match ic dl r b)"
        by blast
    qed
    finally show ?thesis .
  qed
qed

lemma upper_shift:
  fixes c :: unit16
  assumes "0x41 \<le> c" and "c \<le> 0x5A"
  shows "0x61 \<le> c + 0x20" and "c + 0x20 \<le> 0x7A" and "\<not> (0x61 \<le> c)"
proof -
  have lo: "65 \<le> unat c" and hi: "unat c \<le> 90"
    using assms by (simp_all add: word_le_nat_alt)
  have "unat c + unat (0x20 :: unit16) < 2 ^ LENGTH(16)"
    using hi by simp
  then have u: "unat (c + 0x20) = unat c + 32"
    by (simp add: unat_add_lem [THEN iffD1])
  show "0x61 \<le> c + 0x20" using lo u by (simp add: word_le_nat_alt)
  show "c + 0x20 \<le> 0x7A" using hi u by (simp add: word_le_nat_alt)
  show "\<not> (0x61 \<le> c)" using hi by (simp add: word_le_nat_alt)
qed

lemma canonicalize_upper:
  fixes c :: unit16
  assumes "0x41 \<le> c" and "c \<le> 0x5A"
  shows "canonicalize c = c" and "canonicalize (c + 0x20) = c"
  using upper_shift [OF assms] by (simp_all add: canonicalize_def)

lemma to_lower_canonicalize:
  assumes "to_lower a = to_lower b"
  shows "canonicalize a = canonicalize b"
proof (cases "0x41 \<le> a \<and> a \<le> 0x5A")
  case ua: True
  show ?thesis
  proof (cases "0x41 \<le> b \<and> b \<le> 0x5A")
    case True
    with ua assms have "a = b" by (auto simp: to_lower_def)
    then show ?thesis by simp
  next
    case False
    with ua assms have "b = a + 0x20" by (auto simp: to_lower_def)
    with ua show ?thesis by (simp add: canonicalize_upper)
  qed
next
  case na: False
  show ?thesis
  proof (cases "0x41 \<le> b \<and> b \<le> 0x5A")
    case True
    with na assms have "a = b + 0x20" by (auto simp: to_lower_def)
    with True show ?thesis by (simp add: canonicalize_upper)
  next
    case False
    with na assms have "a = b" by (auto simp: to_lower_def)
    then show ?thesis by simp
  qed
qed


lemma same_ignoring_case_lits:
  assumes "same_ignoring_case k t"
  shows "list_all2 (lit_eq True) t k"
proof -
  from assms have "length t = length k" and "\<forall>i<length t. to_lower (k ! i) = to_lower (t ! i)"
    unfolding same_ignoring_case_def
    by (metis length_map, metis length_map nth_map)
  then show ?thesis
    by (auto simp: list_all2_conv_all_nth lit_eq_def intro: to_lower_canonicalize [symmetric])
qed

lemma no_line_break_set:
  "no_line_break a \<Longrightarrow> \<forall>c\<in>set a. \<not> is_line_terminator c"
  by (auto simp: no_line_break_def is_line_terminator_def list_all_iff)

lemma rx_match_end [simp]: "rx_match ic dl [] []"
  by simp

lemma rx_match_DotStar_end:
  "no_line_break b \<Longrightarrow> rx_match ic True [DotStar] b"
  using rx_match_DotStar [of ic True "[]" b] no_line_break_set [of b]
  by (metis append_Nil2 rx_match_end)

lemma pattern_test_true:
  assumes "p \<in> set SYSTEM_MESSAGE_PATTERNS" and "test p s"
  shows "isSystemMessage (JStr s) = Inr True"
  using assms by (auto simp: list_ex_iff)

lemma test_lrm_infix:
  assumes "no_line_break a" and "no_line_break b" and "same_ignoring_case k (js t)"
  shows "test \<lparr>items = Lit lrm # DotStar # lits t @ [DotStar], dollar = True, ignore_case = True\<rparr>
           (0x200E # a @ k @ b)"
proof -
  have "rx_match True True (map Lit (js t) @ [DotStar]) (k @ b)"
    using same_ignoring_case_lits [OF assms(3)] rx_match_DotStar_end [OF assms(2)]
    by (auto simp: rx_match_lits)
  then have "rx_match True True (DotStar # map Lit (js t) @ [DotStar]) (a @ k @ b)"
    using no_line_break_set [OF assms(1)] by (auto simp: rx_match_DotStar)
  then show ?thesis
    by (simp add: test_def lits_def lrm_def lit_eq_def)
qed

lemma test_lrm_suffix:
  assumes "no_line_break a" and "same_ignoring_case k (js t)"
  shows "test \<lparr>items = Lit lrm # DotStar # lits t, dollar = True, ignore_case = True\<rparr>
           (0x200E # a @ k)"
proof -
  have "rx_match True True (map Lit (js t) @ []) (k @ [])"
    using same_ignoring_case_lits [OF assms(2)]
    unfolding rx_match_lits by (metis rx_match_end)
  then have "rx_match True True (map Lit (js t)) k" by simp
  then have "rx_match True True (DotStar # map Lit (js t)) (a @ k)"
    using no_line_break_set [OF assms(1)] by (auto simp: rx_match_DotStar)
  then show ?thesis
    by (simp add: test_def lits_def lrm_def lit_eq_def)
qed

lemma rx_match_open [simp]: "rx_match ic False [] s"
  by (cases s) simp_all

lemma test_prefix:
  assumes "same_ignoring_case k (js t)"
  shows "test \<lparr>items = lits t, dollar = False, ignore_case = True\<rparr> (k @ rest)"
proof -
  have "rx_match True False (map Lit (js t) @ []) (k @ rest)"
    using same_ignoring_case_lits [OF assms]
    unfolding rx_match_lits by (metis rx_match_open)
  then show ?thesis by (simp add: test_def lits_def)
qed

lemma test_lrm_prefix:
  assumes "no_line_break a" and "same_ignoring_case k (js t)"
  shows "test \<lparr>items = Lit lrm # DotStar # lits t, dollar = False, ignore_case = True\<rparr>
           (0x200E # a @ k @ rest)"
proof -
  have "rx_match True False (map Lit (js t) @ []) (k @ rest)"
    using same_ignoring_case_lits [OF assms(2)]
    unfolding rx_match_lits by (metis rx_match_open)
  then have "rx_match True False (map Lit (js t)) (k @ rest)" by simp
  then have "rx_match True False (DotStar # map Lit (js t)) (a @ k @ rest)"
    using no_line_break_set [OF assms(1)] by (auto simp: rx_match_DotStar)
  then show ?thesis
    by (simp add: test_def lits_def lrm_def lit_eq_def)
qed

lemma test_whole:
  assumes "same_ignoring_case k (js t)"
  shows "test \<lparr>items = lits t, dollar = True, ignore_case = True\<rparr> k"
proof -
  have "rx_match True True (map Lit (js t) @ []) (k @ [])"
    using same_ignoring_case_lits [OF assms]
    unfolding rx_match_lits by (metis rx_match_end)
  then show ?thesis by (simp add: test_def lits_def)
qed

text \<open>
  C4. A body of one of these forms is a system message, whatever the case of its letters:
  the left-to-right mark, then on one line a text holding \<open>changed the group\<close>, \<open>added\<close>
  or \<open>removed\<close>, or ending in \<open>added you\<close> or \<open>left\<close>, or holding \<open>created group\<close> with
  anything after it; a text that starts with the end-to-end-encryption banner, with
  \<open>Waiting for this message\<close>, \<open>This message was deleted\<close> or \<open>You deleted this message\<close>;
  the text \<open>null\<close>. The sentence "Can you send the invoice by Friday?" is not.
\<close>

theorem isSystemMessage_patterns:
  "(no_line_break a \<and> no_line_break b \<and> same_ignoring_case k (js ''changed the group'') \<longrightarrow>
      isSystemMessage (JStr (0x200E # a @ k @ b)) = Inr True)
   \<and> (no_line_break a \<and> same_ignoring_case k (js ''added you'') \<longrightarrow>
      isSystemMessage (JStr (0x200E # a @ k)) = Inr True)
   \<and> (no_line_break a \<and> no_line_break b \<and> same_ignoring_case k (js ''added'') \<longrightarrow>
      isSystemMessage (JStr (0x200E # a @ k @ b)) = Inr True)
   \<and> (no_line_break a \<and> no_line_break b \<and> same_ignoring_case k (js ''removed'') \<longrightarrow>
      isSystemMessage (JStr (0x200E # a @ k @ b)) = Inr True)
   \<and> (no_line_break a \<and> same_ignoring_case k (js ''left'') \<longrightarrow>
      isSystemMessage (JStr (0x200E # a @ k)) = Inr True)
   \<and> (no_line_break a \<and> same_ignoring_case k (js ''created group'') \<longrightarrow>
      isSystemMessage (JStr (0x200E # a @ k @ rest)) = Inr True)
   \<and> (same_ignoring_case k (js ''Messages and calls are end-to-end encrypted'') \<longrightarrow>
      isSystemMessage (JStr (k @ rest)) = Inr True)
   \<and> (same_ignoring_case k (js ''Waiting for this message'') \<longrightarrow>
      isSystemMessage (JStr (k @ rest)) = Inr True)
   \<and> (same_ignoring_case k (js ''This message was deleted'') \<longrightarrow>
      isSystemMessage (JStr (k @ rest)) = Inr True)
   \<and> (same_ignoring_case k (js ''You deleted this message'') \<longrightarrow>
      isSystemMessage (JStr (k @ rest)) = Inr True)
   \<and> (same_ignoring_case k (js ''null'') \<longrightarrow> isSystemMessage (JStr k) = Inr True)
   \<and> isSystemMessage (JStr (js ''Can you send the invoice by Friday?'')) = Inr False"
proof (intro conjI impI; (elim conjE)?)
  show "isSystemMessage (JStr (js ''Can you send the invoice by Friday?'')) = Inr False"
    by code_simp
qed (rule pattern_test_true [rotated],
     (erule (2) test_lrm_infix | erule (1) test_lrm_suffix | erule (1) test_lrm_prefix
       | erule test_prefix | erule test_whole),
     simp add: SYSTEM_MESSAGE_PATTERNS_def)+

theorem isSystemMessage_patterns_witness:
  "isSystemMessage (JStr (0x200E # js ''Alice '' @ js ''ADDED you'')) = Inr True
   \<and> isSystemMessage (JStr (0x200E # js ''Bob '' @ js ''Changed The Group'' @ js '' name'')) = Inr True
   \<and> isSystemMessage (JStr (0x200E # js ''You '' @ js ''CREATED GROUP'' @ js '' Team'')) = Inr True
   \<and> isSystemMessage (JStr (js ''this message was DELETED'' @ js ''.'')) = Inr True
   \<and> isSystemMessage (JStr (js ''NULL'')) = Inr True"
proof -
  have a: "no_line_break (js ''Alice '')" "no_line_break (js ''Bob '')" "no_line_break (js '' name'')"
    "no_line_break (js ''You '')"
    by code_simp+
  have k: "same_ignoring_case (js ''ADDED you'') (js ''added you'')"
    "same_ignoring_case (js ''Changed The Group'') (js ''changed the group'')"
    "same_ignoring_case (js ''CREATED GROUP'') (js ''created group'')"
    "same_ignoring_case (js ''this message was DELETED'') (js ''This message was deleted'')"
    "same_ignoring_case (js ''NULL'') (js ''null'')"
    by code_simp+
  have 1: "isSystemMessage (JStr (0x200E # js ''Alice '' @ js ''ADDED you'')) = Inr True"
    using a k isSystemMessage_patterns [where a = "js ''Alice ''" and k = "js ''ADDED you''"]
    by blast
  have 2: "isSystemMessage (JStr (0x200E # js ''Bob '' @ js ''Changed The Group'' @ js '' name'')) = Inr True"
    using a k isSystemMessage_patterns [where a = "js ''Bob ''" and k = "js ''Changed The Group''"
        and b = "js '' name''"]
    by blast
  have 3: "isSystemMessage (JStr (0x200E # js ''You '' @ js ''CREATED GROUP'' @ js '' Team'')) = Inr True"
    using a k isSystemMessage_patterns [where a = "js ''You ''" and k = "js ''CREATED GROUP''"
        and rest = "js '' Team''"]
    by blast
  have 4: "isSystemMessage (JStr (js ''this message was DELETED'' @ js ''.'')) = Inr True"
    using k isSystemMessage_patterns [where k = "js ''this message was DELETED''" and rest = "js ''.''"]
    by blast
  have 5: "isSystemMessage (JStr (js ''NULL'')) = Inr True"
    using k isSystemMessage_patterns [where k = "js ''NULL''"]
    by blast
  from 1 2 3 4 5 show ?thesis by (intro conjI)
qed

section \<open>Properties of the classifier\<close>

lemma bindE_simps [simp]:
  "bindE (Inl e) f = Inl e"
  "bindE (Inr v) f = f v"
  by (simp_all add: bindE_def)

lemma orE_simps [simp]:
  "orE (Inl e) y = Inl e"
  "orE (Inr a) y = (if truthy a then Inr a else y)"
  by (simp_all add: orE_def)

lemma get_prop_defined: "\<not> nullish v \<Longrightarrow> \<exists>w. get_prop v k = Inr w"
  by (cases v) simp_all

lemma classifyWithGPT_returns:
  assumes "to_string_ok message" and "to_string_ok sourceName"
  shows "\<exists>v. classifyWithGPT env message sourceName = (Inr v, [OpenAI_call message sourceName])"
  using assms by (simp add: classifyWithGPT_def split: sum.splits)

lemma classify_try_failed:
  assumes "classifier_failed env message sourceName"
  shows "classify_try env message sourceName = Inr not_action_item
         \<or> (\<exists>e. classify_try env message sourceName = Inl e)"
proof (cases "openai_post env message sourceName")
  case NetworkError
  then show ?thesis by (simp add: classify_try_def axios_post_def)
next
  case (Response st d)
  show ?thesis
  proof (cases "200 \<le> st \<and> st < 300")
    case False
    then have "axios_post (Response st d) = Inl AxiosError"
      by (auto simp: axios_post_def)
    with Response show ?thesis by (simp add: classify_try_def)
  next
    case True
    with Response assms obtain c where c: "response_content d = Inr c"
      and m: "case json_match c of None \<Rightarrow> True | Some j \<Rightarrow> JSON_parse env j = None"
      by (auto simp: classifier_failed_def split: sum.splits)
    from True have "axios_post (Response st d) = Inr d"
      by (simp add: axios_post_def)
    with Response c m show ?thesis
      by (simp add: classify_try_def split: option.splits)
  qed
qed

lemma classifyWithGPT_failed:
  assumes "to_string_ok message" and "to_string_ok sourceName"
    and "classifier_failed env message sourceName"
  shows "classifyWithGPT env message sourceName = (Inr not_action_item, [OpenAI_call message sourceName])"
  using assms(1,2) classify_try_failed [OF assms(3)]
  by (auto simp: classifyWithGPT_def)

lemma log_processing_ok:
  "log_processing sourceName body = Inr u \<Longrightarrow> to_string_ok sourceName \<and> (\<exists>t. body = JStr t)"
  by (cases body) (simp_all split: if_splits)

lemma webhook_filter_Proceed:
  assumes "webhook_filter payload = Inr (Proceed body chatId sourceName)"
  shows "to_string_ok sourceName \<and> (\<exists>t. body = JStr t)"
  using assms
  by (auto simp: webhook_filter_def bindE_def split: sum.splits if_splits dest: log_processing_ok)

lemma to_string_ok_JStr [simp]: "to_string_ok (JStr t)"
  by simp

lemma get_isActionItem_not_action_item [simp]:
  "get_prop not_action_item (js ''isActionItem'') = Inr (JBool False)"
  by (simp add: not_action_item_def)

text \<open>
  C1. With arguments that convert to strings (strings among them, and every pair the
  handler passes), \<open>classifyWithGPT\<close> returns a value and throws nothing; on a transport
  error, a response that is not 2xx, an output without a \<open>{...}\<close> substring or a
  substring that does not parse, the value is \<open>{isActionItem: false}\<close>, and the handler
  answers 200 with \<open>{status: 'processed', isActionItem: false}\<close> after the one call to
  the completion service.
\<close>

theorem classify_failure_not_actionable:
  "(to_string_ok message \<and> to_string_ok sourceName \<longrightarrow>
      (\<exists>v. fst (classifyWithGPT env message sourceName) = Inr v))
   \<and> (to_string_ok message \<and> to_string_ok sourceName \<and> classifier_failed env message sourceName \<longrightarrow>
      fst (classifyWithGPT env message sourceName) = Inr not_action_item)
   \<and> (webhook_filter payload = Inr (Proceed body chatId sourceName) \<longrightarrow>
      (\<exists>v. fst (classifyWithGPT env body sourceName) = Inr v))
   \<and> (webhook_filter payload = Inr (Proceed body chatId sourceName)
        \<and> classifier_failed env body sourceName \<longrightarrow>
      webhook env payload = (Ok200 processed_false, [OpenAI_call body sourceName]))"
proof (intro conjI impI)
  assume "to_string_ok message \<and> to_string_ok sourceName"
  then show "\<exists>v. fst (classifyWithGPT env message sourceName) = Inr v"
    using classifyWithGPT_returns [of message sourceName env] by auto
next
  assume "to_string_ok message \<and> to_string_ok sourceName \<and> classifier_failed env message sourceName"
  then show "fst (classifyWithGPT env message sourceName) = Inr not_action_item"
    by (simp add: classifyWithGPT_failed)
next
  assume "webhook_filter payload = Inr (Proceed body chatId sourceName)"
  then have "to_string_ok sourceName" "to_string_ok body"
    using webhook_filter_Proceed by fastforce+
  then show "\<exists>v. fst (classifyWithGPT env body sourceName) = Inr v"
    using classifyWithGPT_returns [of body sourceName env] by auto
next
  assume a: "webhook_filter payload = Inr (Proceed body chatId sourceName)
        \<and> classifier_failed env body sourceName"
  then have "to_string_ok sourceName" "to_string_ok body"
    using webhook_filter_Proceed by fastforce+
  with a have "classifyWithGPT env body sourceName = (Inr not_action_item, [OpenAI_call body sourceName])"
    by (simp add: classifyWithGPT_failed)
  with a show "webhook env payload = (Ok200 processed_false, [OpenAI_call body sourceName])"
    by (simp add: webhook_def)
qed

theorem classify_failure_not_actionable_witness:
  "classifier_failed (sample_env NetworkError NetworkError sample_parse) (JStr (js ''hi'')) (JStr (js ''Bob''))
   \<and> fst (classifyWithGPT (sample_env NetworkError NetworkError sample_parse) (JStr (js ''hi'')) (JStr (js ''Bob'')))
       = Inr not_action_item
   \<and> classifier_failed (sample_env (Response 200 (completion (js ''Sorry, I cannot tell.''))) NetworkError sample_parse)
        (JStr (js ''Please send the contract by Monday, urgent!'')) (JStr (js ''Alice''))
   \<and> webhook (sample_env (Response 200 (completion (js ''Sorry, I cannot tell.''))) NetworkError sample_parse) sample_event
       = (Ok200 processed_false,
          [OpenAI_call (JStr (js ''Please send the contract by Monday, urgent!'')) (JStr (js ''Alice''))])"
proof -
  let ?E1 = "sample_env NetworkError NetworkError sample_parse"
  let ?E2 = "sample_env (Response 200 (completion (js ''Sorry, I cannot tell.''))) NetworkError sample_parse"
  let ?B = "JStr (js ''Please send the contract by Monday, urgent!'')"
  let ?C = "JStr (js ''999@c.us'')"
  let ?S = "JStr (js ''Alice'')"
  have f1: "classifier_failed ?E1 (JStr (js ''hi'')) (JStr (js ''Bob''))"
    by code_simp
  have f2: "classifier_failed ?E2 ?B ?S"
    by code_simp
  have w: "webhook_filter sample_event = Inr (Proceed ?B ?C ?S)"
    by code_simp
  have a: "fst (classifyWithGPT ?E1 (JStr (js ''hi'')) (JStr (js ''Bob''))) = Inr not_action_item"
    using f1 classify_failure_not_actionable [where message = "JStr (js ''hi'')" and sourceName = "JStr (js ''Bob'')" and env = ?E1]
    by simp
  have b: "webhook ?E2 sample_event = (Ok200 processed_false, [OpenAI_call ?B ?S])"
    using f2 w classify_failure_not_actionable [where env = ?E2 and payload = sample_event and body = ?B and chatId = ?C and sourceName = ?S]
    by simp
  show ?thesis using f1 f2 a b by simp
qed

section \<open>Locating the JSON text\<close>

lemma json_match_first_to_last:
  assumes "0x7B \<notin> set pre" and "0x7D \<notin> set post"
  shows "json_match (pre @ 0x7B # mid @ 0x7D # post) = Some (0x7B # mid @ [0x7D])"
proof -
  have r: "dropWhile (\<lambda>c. c \<noteq> 0x7B) (pre @ 0x7B # mid @ 0x7D # post) = 0x7B # mid @ 0x7D # post"
    using assms(1) by (induction pre) auto
  have "dropWhile (\<lambda>c. c \<noteq> 0x7D) (rev post @ 0x7D # rev mid @ [0x7B]) = 0x7D # rev mid @ [0x7B :: unit16]"
    using assms(2) by (induction post rule: rev_induct) auto
  then have "rev (dropWhile (\<lambda>c. c \<noteq> 0x7D) (rev (0x7B # mid @ 0x7D # post))) = 0x7B # mid @ [0x7D]"
    by simp
  then show ?thesis
    unfolding json_match_def r by (simp add: Let_def)
qed

lemma json_match_None:
  "json_match c = None \<longleftrightarrow> \<not> (\<exists>pre mid post. c = pre @ 0x7B # mid @ 0x7D # post)"
proof
  assume n: "json_match c = None"
  show "\<not> (\<exists>pre mid post. c = pre @ 0x7B # mid @ 0x7D # post)"
  proof
    assume "\<exists>pre mid post. c = pre @ 0x7B # mid @ 0x7D # post"
    then obtain pre mid post where c: "c = pre @ 0x7B # mid @ 0x7D # post" by blast
    have "0x7D \<in> set (dropWhile (\<lambda>c. c \<noteq> 0x7B) c)"
      unfolding c by (induction pre) auto
    with n show False by (simp add: json_match_def Let_def)
  qed
next
  assume d: "\<not> (\<exists>pre mid post. c = pre @ 0x7B # mid @ 0x7D # post)"
  have "0x7D \<notin> set (dropWhile (\<lambda>c. c \<noteq> 0x7B) c)"
  proof
    assume i: "0x7D \<in> set (dropWhile (\<lambda>c. c \<noteq> 0x7B) c)"
    then have ne: "dropWhile (\<lambda>c. c \<noteq> 0x7B) c \<noteq> []"
      by (metis empty_iff empty_set)
    then obtain x r where xr: "dropWhile (\<lambda>c. c \<noteq> 0x7B) c = x # r"
      by (meson neq_Nil_conv)
    with hd_dropWhile [OF ne] have "x = 0x7B" by simp
    with xr have r: "dropWhile (\<lambda>c. c \<noteq> 0x7B) c = 0x7B # r" by simp
    with i have "0x7D \<in> set r" by simp
    then obtain mid post where "r = mid @ 0x7D # post"
      by (auto simp: in_set_conv_decomp)
    with r have "c = takeWhile (\<lambda>c. c \<noteq> 0x7B) c @ 0x7B # mid @ 0x7D # post"
      using takeWhile_dropWhile_id [of "\<lambda>c. c \<noteq> 0x7B" c] by simp
    with d show False by blast
  qed
  then show "json_match c = None" by (simp add: json_match_def Let_def)
qed

lemma trim_around:
  assumes "\<not> is_ws a" and "\<not> is_ws b"
  shows "trim (pre @ a # mid @ b # post) =
         dropWhile is_ws pre @ a # mid @ b # rev (dropWhile is_ws (rev post))"
proof -
  have 1: "dropWhile is_ws (pre @ a # mid @ b # post) = dropWhile is_ws pre @ a # mid @ b # post"
    using assms(1) by (simp add: dropWhile_append3)
  have "rev (dropWhile is_ws pre @ a # mid @ b # post) = rev post @ b # (rev mid @ a # rev (dropWhile is_ws pre))"
    by simp
  then have 2: "dropWhile is_ws (rev (dropWhile is_ws pre @ a # mid @ b # post))
         = dropWhile is_ws (rev post) @ b # (rev mid @ a # rev (dropWhile is_ws pre))"
    using assms(2) dropWhile_append3 [of is_ws b "rev post" "rev mid @ a # rev (dropWhile is_ws pre)"]
    by simp
  show ?thesis unfolding trim_def 1 2 by simp
qed

lemma brace_not_ws: "\<not> is_ws 0x7B" "\<not> is_ws 0x7D"
  by (simp_all add: is_ws_def is_line_terminator_def)

lemma json_match_trim:
  assumes "0x7B \<notin> set pre" and "0x7D \<notin> set post"
  shows "json_match (trim (pre @ 0x7B # mid @ 0x7D # post)) = Some (0x7B # mid @ [0x7D])"
proof -
  have "0x7B \<notin> set (dropWhile is_ws pre)"
    using assms(1) set_dropWhileD by fastforce
  moreover have "0x7D \<notin> set (rev (dropWhile is_ws (rev post)))"
    using assms(2) set_dropWhileD by fastforce
  ultimately show ?thesis
    unfolding trim_around [OF brace_not_ws] by (rule json_match_first_to_last)
qed

lemma response_content_completion [simp]:
  "response_content (completion c) = Inr (trim c)"
  by (simp add: response_content_def completion_def)

text \<open>
  C2, as the code has it. The substring parsed runs from the first \<open>{\<close> of the trimmed
  output to its last \<open>}\<close>. For every 2xx response whose \<open>choices[0].message.content\<close> is
  one JSON object between a prose with no \<open>{\<close> before it and a prose with no \<open>}\<close> after
  it, that substring is the object, and the classification is what \<open>JSON.parse\<close> makes of
  it (\<open>{isActionItem: false}\<close> when it does not parse).
\<close>

theorem classify_parses_first_to_last:
  assumes "0x7B \<notin> set pre" and "0x7D \<notin> set post"
    and "to_string_ok message" and "to_string_ok sourceName"
    and "openai_post env message sourceName = Response st d"
    and "200 \<le> st" and "st < 300"
    and "response_content d = Inr (trim (pre @ 0x7B # mid @ 0x7D # post))"
  shows "json_match (trim (pre @ 0x7B # mid @ 0x7D # post)) = Some (0x7B # mid @ [0x7D])
     \<and> fst (classifyWithGPT env message sourceName) =
         Inr (case JSON_parse env (0x7B # mid @ [0x7D]) of Some v \<Rightarrow> v | None \<Rightarrow> not_action_item)"
proof -
  have m: "json_match (trim (pre @ 0x7B # mid @ 0x7D # post)) = Some (0x7B # mid @ [0x7D])"
    using assms(1,2) by (rule json_match_trim)
  have "axios_post (Response st d) = Inr d"
    using assms(6,7) by (simp add: axios_post_def)
  then have "classify_try env message sourceName =
      (case JSON_parse env (0x7B # mid @ [0x7D]) of None \<Rightarrow> Inl SyntaxError | Some v \<Rightarrow> Inr v)"
    using assms(5,8) m by (simp add: classify_try_def)
  then have "fst (classifyWithGPT env message sourceName) =
         Inr (case JSON_parse env (0x7B # mid @ [0x7D]) of Some v \<Rightarrow> v | None \<Rightarrow> not_action_item)"
    using assms(3,4) by (simp add: classifyWithGPT_def split: option.splits)
  with m show ?thesis by simp
qed

theorem classify_parses_first_to_last_witness:
  "json_match (trim (js ''  Here you go: '' @ 0x7B # sample_members @ 0x7D # js '' Anything else?  ''))
     = Some sample_json
   \<and> fst (classifyWithGPT
        (sample_env
           (Response 200
              (JObj [(js ''id'', JStr (js ''chatcmpl-1'')),
                     (js ''choices'',
                      JArr [JObj [(js ''index'', JNum 0),
                                  (js ''message'',
                                   JObj [(js ''role'', JStr (js ''assistant'')),
                                         (js ''content'',
                                          JStr (js ''  Here you go: '' @ 0x7B # sample_members @ 0x7D # js '' Anything else?  ''))]),
                                  (js ''finish_reason'', JStr (js ''stop''))]]),
                     (js ''model'', JStr (js ''gpt-4o-mini''))]))
           NetworkError sample_parse)
        (JStr (js ''hi'')) (JStr (js ''Bob'')))
     = Inr sample_classification"
proof -
  let ?pre = "js ''  Here you go: ''"
  let ?post = "js '' Anything else?  ''"
  let ?d = "JObj [(js ''id'', JStr (js ''chatcmpl-1'')),
                     (js ''choices'',
                      JArr [JObj [(js ''index'', JNum 0),
                                  (js ''message'',
                                   JObj [(js ''role'', JStr (js ''assistant'')),
                                         (js ''content'',
                                          JStr (?pre @ 0x7B # sample_members @ 0x7D # ?post))]),
                                  (js ''finish_reason'', JStr (js ''stop''))]]),
                     (js ''model'', JStr (js ''gpt-4o-mini''))]"
  let ?E = "sample_env (Response 200 ?d) NetworkError sample_parse"
  have 1: "0x7B \<notin> set ?pre" by code_simp
  have 2: "0x7D \<notin> set ?post" by code_simp
  have 3: "openai_post ?E (JStr (js ''hi'')) (JStr (js ''Bob'')) = Response 200 ?d"
    by (simp add: sample_env_def)
  have 4: "JSON_parse ?E (0x7B # sample_members @ [0x7D]) = Some sample_classification"
    by (simp add: sample_env_def sample_parse_def sample_json_def)
  have 5: "response_content ?d = Inr (trim (?pre @ 0x7B # sample_members @ 0x7D # ?post))"
    by (simp add: response_content_def js_def)
  show ?thesis
    using 1 2 3 4 5
      classify_parses_first_to_last [where pre = ?pre and post = ?post and mid = sample_members
        and env = ?E and message = "JStr (js ''hi'')" and sourceName = "JStr (js ''Bob'')" and st = 200
        and d = ?d]
    by (simp add: sample_json_def)
qed

text \<open>
  C2 as stated fails: with a brace in the prose after the object, the substring located
  is not the object, it does not parse, and the classification is
  \<open>{isActionItem: false}\<close> instead of the object.
\<close>

theorem json_match_not_balanced_counterexample:
  "json_match (trim (js ''Result: '' @ sample_json @ js '' (keys as in {schema})''))
     = Some (sample_json @ js '' (keys as in {schema}'')
   \<and> sample_parse sample_json = Some sample_classification
   \<and> fst (classifyWithGPT
        (sample_env (Response 200 (completion (js ''Result: '' @ sample_json @ js '' (keys as in {schema})'')))
           NetworkError sample_parse)
        (JStr (js ''hi'')) (JStr (js ''Bob'')))
     = Inr not_action_item
   \<and> not_action_item \<noteq> sample_classification"
  by code_simp

section \<open>Properties of the handler\<close>

lemma truthy_not_nullish: "truthy v \<Longrightarrow> \<not> nullish v"
  by (cases v) simp_all

lemma messageData_not_nullish:
  assumes "messageData_of payload = Inr messageData"
  shows "\<not> nullish messageData"
proof (cases "nullish payload")
  case True
  then have "get_prop payload (js ''payload'') = Inl TypeError"
    by (cases payload) simp_all
  with assms show ?thesis by (simp add: messageData_of_def)
next
  case False
  then obtain p where p: "get_prop payload (js ''payload'') = Inr p"
    using get_prop_defined by blast
  with assms False show ?thesis
    by (auto simp: messageData_of_def truthy_not_nullish split: if_splits)
qed

lemma body_of_defined:
  assumes "\<not> nullish messageData"
  shows "\<exists>b. body_of messageData = Inr b"
proof -
  obtain a b c where "get_prop messageData (js ''body'') = Inr a"
    "get_prop messageData (js ''text'') = Inr b" "get_prop messageData (js ''caption'') = Inr c"
    using get_prop_defined [OF assms] by metis
  then show ?thesis by (simp add: body_of_def)
qed

lemma fromMe_of_value:
  assumes "get_prop messageData (js ''fromMe'') = Inr a"
    and "get_prop messageData (js ''from_me'') = Inr b"
  shows "fromMe_of messageData = Inr (if truthy a then a else if truthy b then b else JBool False)"
  using assms by (simp add: fromMe_of_def)

text \<open>
  C5, as the code has it. The flag is the first truthy of \<open>fromMe\<close> and \<open>from_me\<close> of the
  message data, \<open>false\<close> when neither is; for an event that passed the event-type check,
  a truthy flag makes the handler answer \<open>{status: 'skipped', reason: 'outgoing message'}\<close>
  and call neither the classifier nor the sink.
\<close>

theorem fromMe_outgoing:
  assumes "event_of payload = Inr event"
    and "js_includes event (js ''message'') = Inr True"
    and "messageData_of payload = Inr messageData"
    and "get_prop messageData (js ''fromMe'') = Inr a"
    and "get_prop messageData (js ''from_me'') = Inr b"
  shows "fromMe_of messageData = Inr (if truthy a then a else if truthy b then b else JBool False)
     \<and> (truthy a \<or> truthy b \<longrightarrow>
          webhook env payload = (Ok200 (skipped (js ''outgoing message'')), []))"
proof
  show v: "fromMe_of messageData = Inr (if truthy a then a else if truthy b then b else JBool False)"
    using assms(4,5) by (rule fromMe_of_value)
  show "truthy a \<or> truthy b \<longrightarrow>
          webhook env payload = (Ok200 (skipped (js ''outgoing message'')), [])"
  proof
    assume t: "truthy a \<or> truthy b"
    obtain bd where bd: "body_of messageData = Inr bd"
      using body_of_defined [OF messageData_not_nullish [OF assms(3)]] by blast
    from t have "truthy (if truthy a then a else if truthy b then b else JBool False)"
      by auto
    with v assms(1,2,3) bd have "webhook_filter payload = Inr (Skip (js ''outgoing message''))"
      by (simp add: webhook_filter_def)
    then show "webhook env payload = (Ok200 (skipped (js ''outgoing message'')), [])"
      by (simp add: webhook_def)
  qed
qed

theorem fromMe_outgoing_witness:
  "fromMe_of (JObj [(js ''body'', JStr (js ''On my way'')), (js ''from_me'', JBool True)]) = Inr (JBool True)
   \<and> webhook (sample_env NetworkError NetworkError sample_parse)
        (JObj [(js ''event'', JStr (js ''message'')),
               (js ''payload'', JObj [(js ''body'', JStr (js ''On my way'')), (js ''from_me'', JBool True)])])
       = (Ok200 (skipped (js ''outgoing message'')), [])"
proof -
  let ?md = "JObj [(js ''body'', JStr (js ''On my way'')), (js ''from_me'', JBool True)]"
  let ?p = "JObj [(js ''event'', JStr (js ''message'')), (js ''payload'', ?md)]"
  have 1: "event_of ?p = Inr (JStr (js ''message''))" by code_simp
  have 2: "js_includes (JStr (js ''message'')) (js ''message'') = Inr True" by code_simp
  have 3: "messageData_of ?p = Inr ?md" by code_simp
  have 4: "get_prop ?md (js ''fromMe'') = Inr JUndefined" by code_simp
  have 5: "get_prop ?md (js ''from_me'') = Inr (JBool True)" by code_simp
  show ?thesis
    using fromMe_outgoing [OF 1 2 3 4 5, of "sample_env NetworkError NetworkError sample_parse"]
    by simp
qed

text \<open>
  C5 as stated fails: with \<open>fromMe: false\<close> and \<open>from_me: true\<close> the first defined of the
  two is \<open>false\<close>, the flag of the code is \<open>true\<close>, and the message is skipped as outgoing.
\<close>

theorem fromMe_first_defined_counterexample:
  "fromMe_first_defined
      (JObj [(js ''body'', JStr (js ''On my way'')), (js ''fromMe'', JBool False), (js ''from_me'', JBool True)])
     = Inr (JBool False)
   \<and> fromMe_of
      (JObj [(js ''body'', JStr (js ''On my way'')), (js ''fromMe'', JBool False), (js ''from_me'', JBool True)])
     = Inr (JBool True)
   \<and> webhook (sample_env NetworkError NetworkError sample_parse)
      (JObj [(js ''body'', JStr (js ''On my way'')), (js ''fromMe'', JBool False), (js ''from_me'', JBool True)])
     = (Ok200 (skipped (js ''outgoing message'')), [])"
  by code_simp

section \<open>The source name\<close>

lemma orE_assoc: "orE (orE x y) z = orE x (orE y z)"
  by (cases x) auto

lemma optE_spelled:
  assumes "get_prop v k = Inr w"
    and "if nullish w then n = JUndefined else get_prop w k' = Inr n"
  shows "optE (get_prop v k) k' = Inr n"
  using assms by (simp add: optE_def)

lemma sourceName_of_value:
  assumes "get_prop messageData (js ''_data'') = Inr dat"
    and "if nullish dat then n1 = JUndefined else get_prop dat (js ''notifyName'') = Inr n1"
    and "get_prop messageData (js ''notifyName'') = Inr n2"
    and "get_prop messageData (js ''pushName'') = Inr n3"
    and "get_prop messageData (js ''chat'') = Inr ch"
    and "if nullish ch then n4 = JUndefined else get_prop ch (js ''name'') = Inr n4"
  shows "sourceName_of messageData chatId =
     (if truthy n1 then Inr n1 else if truthy n2 then Inr n2
      else if truthy n3 then Inr n3 else if truthy n4 then Inr n4
      else (case chatId of
              JStr cid \<Rightarrow>
                Inr (JStr (if takeWhile (\<lambda>c. c \<noteq> 0x40) cid \<noteq> []
                           then takeWhile (\<lambda>c. c \<noteq> 0x40) cid else js ''Unknown''))
            | _ \<Rightarrow> Inl TypeError))"
proof -
  have u: "js ''Unknown'' \<noteq> []" by (simp add: js_def)
  have o: "optE (get_prop messageData (js ''_data'')) (js ''notifyName'') = Inr n1"
    "optE (get_prop messageData (js ''chat'')) (js ''name'') = Inr n4"
    by (rule optE_spelled [OF assms(1,2)], rule optE_spelled [OF assms(5,6)])
  have "sourceName_of messageData chatId =
          orE (Inr n1) (orE (Inr n2) (orE (Inr n3) (orE (Inr n4)
            (orE (split_at_0 chatId) (Inr (JStr (js ''Unknown'')))))))"
    unfolding sourceName_of_def o assms(3,4) orE_assoc ..
  also have "\<dots> = (if truthy n1 then Inr n1 else if truthy n2 then Inr n2
      else if truthy n3 then Inr n3 else if truthy n4 then Inr n4
      else (case chatId of
              JStr cid \<Rightarrow>
                Inr (JStr (if takeWhile (\<lambda>c. c \<noteq> 0x40) cid \<noteq> []
                           then takeWhile (\<lambda>c. c \<noteq> 0x40) cid else js ''Unknown''))
            | _ \<Rightarrow> Inl TypeError))"
    using u by (cases chatId) simp_all
  finally show ?thesis .
qed

lemma chatId_of_value:
  assumes "get_prop messageData (js ''chatId'') = Inr c1"
    and "get_prop messageData (js ''from'') = Inr c2"
    and "get_prop messageData (js ''chat'') = Inr ch"
    and "if nullish ch then c3 = JUndefined else get_prop ch (js ''id'') = Inr c3"
  shows "chatId_of messageData =
     Inr (if truthy c1 then c1 else if truthy c2 then c2 else if truthy c3 then c3 else JStr [])"
proof -
  have "optE (get_prop messageData (js ''chat'')) (js ''id'') = Inr c3"
    by (rule optE_spelled [OF assms(3,4)])
  then show ?thesis
    unfolding chatId_of_def assms(1,2) by simp
qed

lemma first_truthy_text:
  assumes "absent_or_string v"
  shows "truthy v \<longleftrightarrow> text_of v \<noteq> []" and "truthy v \<Longrightarrow> v = JStr (text_of v)"
  using assms by (cases v; simp)+

lemma isSystemMessage_False_string:
  "isSystemMessage body = Inr False \<Longrightarrow> \<exists>t. body = JStr t"
  by (cases body) (simp_all split: if_splits)

lemma webhook_sourceName_throws:
  assumes "event_of payload = Inr event" and "js_includes event (js ''message'') = Inr True"
    and "messageData_of payload = Inr messageData"
    and "body_of messageData = Inr body"
    and "fromMe_of messageData = Inr fromMe" and "\<not> truthy fromMe"
    and "isSystemMessage body = Inr False"
    and "chatId_of messageData = Inr chatId"
    and "sourceName_of messageData chatId = Inl x"
  shows "webhook env payload = (Err500 x, [])"
  using assms by (simp add: webhook_def webhook_filter_def)

text \<open>
  C6, as the code has it. The source name is the first truthy of \<open>_data.notifyName\<close>,
  \<open>notifyName\<close>, \<open>pushName\<close>, \<open>chat.name\<close> (the nested ones read only when \<open>_data\<close> and
  \<open>chat\<close> are there) and the part of the chat id before its first \<open>@\<close>, and \<open>Unknown\<close>
  when all are falsy. The last link needs a chat id that is a string: with no truthy name
  and a chat id of another type, \<open>split\<close> throws and the handler answers 500. With name
  fields that are strings or absent and a chat id that is a string, the source name is
  the first non-empty text of the chain. The chat id is the first truthy of \<open>chatId\<close>,
  \<open>from\<close> and \<open>chat.id\<close>, and the empty string when none is.
\<close>

theorem sourceName_chain:
  assumes "get_prop messageData (js ''_data'') = Inr dat"
    and "if nullish dat then n1 = JUndefined else get_prop dat (js ''notifyName'') = Inr n1"
    and "get_prop messageData (js ''notifyName'') = Inr n2"
    and "get_prop messageData (js ''pushName'') = Inr n3"
    and "get_prop messageData (js ''chat'') = Inr ch"
    and "if nullish ch then n4 = JUndefined else get_prop ch (js ''name'') = Inr n4"
  shows "sourceName_of messageData chatId =
     (if truthy n1 then Inr n1 else if truthy n2 then Inr n2
      else if truthy n3 then Inr n3 else if truthy n4 then Inr n4
      else (case chatId of
              JStr cid \<Rightarrow>
                Inr (JStr (if takeWhile (\<lambda>c. c \<noteq> 0x40) cid \<noteq> []
                           then takeWhile (\<lambda>c. c \<noteq> 0x40) cid else js ''Unknown''))
            | _ \<Rightarrow> Inl TypeError))
   \<and> (list_all absent_or_string [n1, n2, n3, n4] \<and> chatId = JStr cid \<longrightarrow>
        sourceName_of messageData chatId =
          Inr (JStr (first_nonempty
                 [text_of n1, text_of n2, text_of n3, text_of n4, takeWhile (\<lambda>c. c \<noteq> 0x40) cid]
                 (js ''Unknown''))))
   \<and> (event_of payload = Inr event \<and> js_includes event (js ''message'') = Inr True
       \<and> messageData_of payload = Inr messageData \<and> body_of messageData = Inr body
       \<and> fromMe_of messageData = Inr fromMe \<and> \<not> truthy fromMe
       \<and> isSystemMessage body = Inr False \<and> chatId_of messageData = Inr chatId
       \<and> \<not> truthy n1 \<and> \<not> truthy n2 \<and> \<not> truthy n3 \<and> \<not> truthy n4
       \<and> (\<forall>cid. chatId \<noteq> JStr cid) \<longrightarrow>
        webhook env payload = (Err500 TypeError, []))
   \<and> (get_prop messageData (js ''chatId'') = Inr c1 \<and> get_prop messageData (js ''from'') = Inr c2
       \<and> (if nullish ch then c3 = JUndefined else get_prop ch (js ''id'') = Inr c3) \<longrightarrow>
        chatId_of messageData =
          Inr (if truthy c1 then c1 else if truthy c2 then c2 else if truthy c3 then c3 else JStr []))"
proof (intro conjI impI)
  show v: "sourceName_of messageData chatId =
     (if truthy n1 then Inr n1 else if truthy n2 then Inr n2
      else if truthy n3 then Inr n3 else if truthy n4 then Inr n4
      else (case chatId of
              JStr cid \<Rightarrow>
                Inr (JStr (if takeWhile (\<lambda>c. c \<noteq> 0x40) cid \<noteq> []
                           then takeWhile (\<lambda>c. c \<noteq> 0x40) cid else js ''Unknown''))
            | _ \<Rightarrow> Inl TypeError))"
    using assms by (rule sourceName_of_value)
  {
    assume t: "list_all absent_or_string [n1, n2, n3, n4] \<and> chatId = JStr cid"
    then have a: "absent_or_string n1" "absent_or_string n2" "absent_or_string n3" "absent_or_string n4"
      by simp_all
    show "sourceName_of messageData chatId =
          Inr (JStr (first_nonempty
                 [text_of n1, text_of n2, text_of n3, text_of n4, takeWhile (\<lambda>c. c \<noteq> 0x40) cid]
                 (js ''Unknown'')))"
      unfolding v using t first_truthy_text [OF a(1)] first_truthy_text [OF a(2)]
        first_truthy_text [OF a(3)] first_truthy_text [OF a(4)]
      by auto
  }
  {
    assume h: "event_of payload = Inr event \<and> js_includes event (js ''message'') = Inr True
       \<and> messageData_of payload = Inr messageData \<and> body_of messageData = Inr body
       \<and> fromMe_of messageData = Inr fromMe \<and> \<not> truthy fromMe
       \<and> isSystemMessage body = Inr False \<and> chatId_of messageData = Inr chatId
       \<and> \<not> truthy n1 \<and> \<not> truthy n2 \<and> \<not> truthy n3 \<and> \<not> truthy n4
       \<and> (\<forall>cid. chatId \<noteq> JStr cid)"
    then have "sourceName_of messageData chatId = Inl TypeError"
      unfolding v by (cases chatId) auto
    with h show "webhook env payload = (Err500 TypeError, [])"
      by (intro webhook_sourceName_throws [of payload event messageData body fromMe chatId]) simp_all
  }
  {
    assume "get_prop messageData (js ''chatId'') = Inr c1 \<and> get_prop messageData (js ''from'') = Inr c2
       \<and> (if nullish ch then c3 = JUndefined else get_prop ch (js ''id'') = Inr c3)"
    then show "chatId_of messageData =
          Inr (if truthy c1 then c1 else if truthy c2 then c2 else if truthy c3 then c3 else JStr [])"
      using chatId_of_value [OF _ _ assms(5), of c1 c2 c3] by simp
  }
qed

theorem sourceName_chain_witness:
  "sourceName_of
      (JObj [(js ''body'', JStr (js ''hello'')),
             (js ''_data'', JObj [(js ''notifyName'', JStr (js ''Zoe''))]),
             (js ''notifyName'', JStr (js ''Al'')), (js ''pushName'', JStr (js ''Carol'')),
             (js ''chat'', JObj [(js ''name'', JStr (js ''Team''))]),
             (js ''chatId'', JStr (js ''1234@g.us''))])
      (JStr (js ''1234@g.us'')) = Inr (JStr (js ''Zoe''))
   \<and> sourceName_of
      (JObj [(js ''body'', JStr (js ''hello'')), (js ''notifyName'', JStr []),
             (js ''chat'', JObj [(js ''name'', JStr (js ''Team'')), (js ''id'', JStr (js ''77@g.us''))])])
      (JStr (js ''77@g.us'')) = Inr (JStr (js ''Team''))
   \<and> sourceName_of (JObj [(js ''body'', JStr (js ''hello'')), (js ''chatId'', JStr (js ''1234@g.us''))])
      (JStr (js ''1234@g.us'')) = Inr (JStr (js ''1234''))
   \<and> sourceName_of (JObj [(js ''body'', JStr (js ''hello''))]) (JStr []) = Inr (JStr (js ''Unknown''))
   \<and> webhook_filter (JObj [(js ''body'', JStr (js ''hello'')), (js ''chatId'', JStr (js ''1234@g.us''))])
     = Inr (Proceed (JStr (js ''hello'')) (JStr (js ''1234@g.us'')) (JStr (js ''1234'')))
   \<and> webhook_filter (JObj [(js ''body'', JStr (js ''hello''))])
     = Inr (Proceed (JStr (js ''hello'')) (JStr []) (JStr (js ''Unknown'')))
   \<and> webhook (sample_env NetworkError NetworkError sample_parse)
        (JObj [(js ''body'', JStr (js ''hello'')), (js ''chatId'', JNum 5)])
     = (Err500 TypeError, [])
   \<and> chatId_of
        (JObj [(js ''body'', JStr (js ''hello'')), (js ''notifyName'', JStr []),
               (js ''chat'', JObj [(js ''name'', JStr (js ''Team'')), (js ''id'', JStr (js ''77@g.us''))])])
     = Inr (JStr (js ''77@g.us''))
   \<and> webhook_filter (JObj [(js ''body'', JStr (js ''hello'')), (js ''from'', JStr (js ''555@c.us''))])
     = Inr (Proceed (JStr (js ''hello'')) (JStr (js ''555@c.us'')) (JStr (js ''555'')))"
proof -
  let ?dat = "JObj [(js ''notifyName'', JStr (js ''Zoe''))]"
  let ?ch1 = "JObj [(js ''name'', JStr (js ''Team''))]"
  let ?ch2 = "JObj [(js ''name'', JStr (js ''Team'')), (js ''id'', JStr (js ''77@g.us''))]"
  let ?m1 = "JObj [(js ''body'', JStr (js ''hello'')), (js ''_data'', ?dat),
             (js ''notifyName'', JStr (js ''Al'')), (js ''pushName'', JStr (js ''Carol'')),
             (js ''chat'', ?ch1), (js ''chatId'', JStr (js ''1234@g.us''))]"
  let ?m2 = "JObj [(js ''body'', JStr (js ''hello'')), (js ''notifyName'', JStr []), (js ''chat'', ?ch2)]"
  let ?m3 = "JObj [(js ''body'', JStr (js ''hello'')), (js ''chatId'', JStr (js ''1234@g.us''))]"
  let ?m4 = "JObj [(js ''body'', JStr (js ''hello''))]"
  let ?m5 = "JObj [(js ''body'', JStr (js ''hello'')), (js ''chatId'', JNum 5)]"
  let ?E = "sample_env NetworkError NetworkError sample_parse"
  have n: "js ''Zoe'' \<noteq> []" "js ''Team'' \<noteq> []" by (simp_all add: js_def)
  have 1: "sourceName_of ?m1 (JStr (js ''1234@g.us'')) = Inr (JStr (js ''Zoe''))"
    using sourceName_chain [where messageData = ?m1 and dat = ?dat and ch = ?ch1
        and ?n1.0 = "JStr (js ''Zoe'')" and ?n2.0 = "JStr (js ''Al'')" and ?n3.0 = "JStr (js ''Carol'')"
        and ?n4.0 = "JStr (js ''Team'')" and chatId = "JStr (js ''1234@g.us'')", THEN conjunct1] n
    by (simp add: js_def)
  have 2: "sourceName_of ?m2 (JStr (js ''77@g.us'')) = Inr (JStr (js ''Team''))"
    using sourceName_chain [where messageData = ?m2 and dat = JUndefined and ch = ?ch2
        and ?n1.0 = JUndefined and ?n2.0 = "JStr []" and ?n3.0 = JUndefined
        and ?n4.0 = "JStr (js ''Team'')" and chatId = "JStr (js ''77@g.us'')", THEN conjunct1] n
    by (simp add: js_def)
  have f3: "first_nonempty [text_of JUndefined, text_of JUndefined, text_of JUndefined, text_of JUndefined,
             takeWhile (\<lambda>c. c \<noteq> 0x40) (js ''1234@g.us'')] (js ''Unknown'') = js ''1234''"
    by code_simp
  have 3: "sourceName_of ?m3 (JStr (js ''1234@g.us'')) = Inr (JStr (js ''1234''))"
    using sourceName_chain [where messageData = ?m3 and dat = JUndefined and ch = JUndefined
        and ?n1.0 = JUndefined and ?n2.0 = JUndefined and ?n3.0 = JUndefined
        and ?n4.0 = JUndefined and chatId = "JStr (js ''1234@g.us'')" and cid = "js ''1234@g.us''",
        THEN conjunct2, THEN conjunct1] f3
    by (simp add: js_def)
  have f4: "first_nonempty [text_of JUndefined, text_of JUndefined, text_of JUndefined, text_of JUndefined,
             takeWhile (\<lambda>c. c \<noteq> 0x40) []] (js ''Unknown'') = js ''Unknown''"
    by code_simp
  have 4: "sourceName_of ?m4 (JStr []) = Inr (JStr (js ''Unknown''))"
    using sourceName_chain [where messageData = ?m4 and dat = JUndefined and ch = JUndefined
        and ?n1.0 = JUndefined and ?n2.0 = JUndefined and ?n3.0 = JUndefined
        and ?n4.0 = JUndefined and chatId = "JStr []" and cid = "[]",
        THEN conjunct2, THEN conjunct1] f4
    by (simp add: js_def)
  have 5: "webhook_filter ?m3 = Inr (Proceed (JStr (js ''hello'')) (JStr (js ''1234@g.us'')) (JStr (js ''1234'')))"
    by code_simp
  have 6: "webhook_filter ?m4 = Inr (Proceed (JStr (js ''hello'')) (JStr []) (JStr (js ''Unknown'')))"
    by code_simp
  have h: "event_of ?m5 = Inr (JStr (js ''message''))"
    "js_includes (JStr (js ''message'')) (js ''message'') = Inr True"
    "messageData_of ?m5 = Inr ?m5" "body_of ?m5 = Inr (JStr (js ''hello''))"
    "fromMe_of ?m5 = Inr (JBool False)" "isSystemMessage (JStr (js ''hello'')) = Inr False"
    "chatId_of ?m5 = Inr (JNum 5)"
    by code_simp+
  have 7: "webhook ?E ?m5 = (Err500 TypeError, [])"
    using sourceName_chain [where messageData = ?m5 and dat = JUndefined and ch = JUndefined
        and ?n1.0 = JUndefined and ?n2.0 = JUndefined and ?n3.0 = JUndefined
        and ?n4.0 = JUndefined and chatId = "JNum 5" and payload = ?m5
        and event = "JStr (js ''message'')" and body = "JStr (js ''hello'')" and fromMe = "JBool False"
        and env = ?E, THEN conjunct2, THEN conjunct2, THEN conjunct1] h
    by (simp add: js_def)
  have 8: "chatId_of ?m2 = Inr (JStr (js ''77@g.us''))"
    using sourceName_chain [where messageData = ?m2 and dat = JUndefined and ch = ?ch2
        and ?n1.0 = JUndefined and ?n2.0 = "JStr []" and ?n3.0 = JUndefined
        and ?n4.0 = "JStr (js ''Team'')" and ?c1.0 = JUndefined and ?c2.0 = JUndefined
        and ?c3.0 = "JStr (js ''77@g.us'')", THEN conjunct2, THEN conjunct2, THEN conjunct2]
    by (simp add: js_def)
  have 9: "webhook_filter (JObj [(js ''body'', JStr (js ''hello'')), (js ''from'', JStr (js ''555@c.us''))])
     = Inr (Proceed (JStr (js ''hello'')) (JStr (js ''555@c.us'')) (JStr (js ''555'')))"
    by code_simp
  from 1 2 3 4 5 6 7 8 9 show ?thesis by (intro conjI)
qed

text \<open>
  C6 as stated fails: with no name field and the chat id 5, a number, the handler answers
  500 and there is no source name; and the empty array in \<open>notifyName\<close> is taken as the
  source name, ahead of the push name.
\<close>

theorem sourceName_chain_counterexample:
  "webhook (sample_env NetworkError NetworkError sample_parse)
        (JObj [(js ''body'', JStr (js ''hello'')), (js ''chatId'', JNum 5)])
     = (Err500 TypeError, [])
   \<and> webhook_filter
        (JObj [(js ''body'', JStr (js ''hello'')), (js ''notifyName'', JArr []),
               (js ''pushName'', JStr (js ''Carol''))])
     = Inr (Proceed (JStr (js ''hello'')) (JStr []) (JArr []))"
  by code_simp

section \<open>The record and the response\<close>

lemma classifyWithGPT_calls:
  assumes "to_string_ok message" and "to_string_ok sourceName"
  shows "snd (classifyWithGPT env message sourceName) = [OpenAI_call message sourceName]"
  using assms by (simp add: classifyWithGPT_def)

lemma webhook_action_item:
  assumes "webhook_filter payload = Inr (Proceed body chatId sourceName)"
    and "fst (classifyWithGPT env body sourceName) = Inr classification"
    and "get_prop classification (js ''isActionItem'') = Inr a" and "truthy a"
    and "sheetData env sourceName body chatId classification = Inr d"
  shows "webhook env payload =
         (Ok200 (processed_true classification), [OpenAI_call body sourceName, Sheets_call d])"
proof -
  have "to_string_ok sourceName" "to_string_ok body"
    using webhook_filter_Proceed [OF assms(1)] by fastforce+
  then have "snd (classifyWithGPT env body sourceName) = [OpenAI_call body sourceName]"
    by (rule classifyWithGPT_calls [rotated])
  with assms(2) have "classifyWithGPT env body sourceName = (Inr classification, [OpenAI_call body sourceName])"
    by (metis prod.collapse)
  with assms(1,3,4,5) show ?thesis
    by (simp add: webhook_def writeToGoogleSheets_def)
qed

lemma sheetData_value:
  assumes "get_prop classification (js ''responsible'') = Inr r"
    and "get_prop classification (js ''urgency'') = Inr u"
    and "get_prop classification (js ''due'') = Inr d"
  shows "sheetData env sourceName body chatId classification =
     Inr (JObj [(js ''timestamp'', JStr (now_iso env)),
                (js ''source'', sourceName),
                (js ''message'', body),
                (js ''responsible'', if truthy r then r else JStr (js ''Unknown'')),
                (js ''urgency'', if truthy u then u else JStr (js ''Normal'')),
                (js ''due'', if truthy d then d else JStr (js ''None'')),
                (js ''status'', JStr (js ''Open'')),
                (js ''chatId'', chatId)])"
  using assms by (simp add: sheetData_def)

text \<open>
  C7, as the code has it. For a classification whose \<open>isActionItem\<close> is \<open>true\<close>, the one
  record sent to the sink has the clock's timestamp, status \<open>Open\<close>, the source name, the
  body and the chat id, and for \<open>responsible\<close>, \<open>urgency\<close> and \<open>due\<close> the
  classification's value when it is truthy, and \<open>Unknown\<close>, \<open>Normal\<close>, \<open>None\<close> when it is
  omitted or falsy (the empty string, \<open>null\<close>, \<open>false\<close>, 0); the response is
  \<open>{status: 'processed', isActionItem: true, classification}\<close>.
\<close>

theorem action_item_record:
  assumes "webhook_filter payload = Inr (Proceed body chatId sourceName)"
    and "fst (classifyWithGPT env body sourceName) = Inr classification"
    and "get_prop classification (js ''isActionItem'') = Inr (JBool True)"
    and "get_prop classification (js ''responsible'') = Inr r"
    and "get_prop classification (js ''urgency'') = Inr u"
    and "get_prop classification (js ''due'') = Inr d"
  shows "webhook env payload =
     (Ok200 (processed_true classification),
      [OpenAI_call body sourceName,
       Sheets_call
         (JObj [(js ''timestamp'', JStr (now_iso env)),
                (js ''source'', sourceName),
                (js ''message'', body),
                (js ''responsible'', if truthy r then r else JStr (js ''Unknown'')),
                (js ''urgency'', if truthy u then u else JStr (js ''Normal'')),
                (js ''due'', if truthy d then d else JStr (js ''None'')),
                (js ''status'', JStr (js ''Open'')),
                (js ''chatId'', chatId)])])"
  by (rule webhook_action_item [OF assms(1,2,3) _ sheetData_value [OF assms(4,5,6)]]) simp

theorem action_item_record_witness:
  "webhook (sample_env (Response 200 (completion sample_json)) (Response 200 JNull) sample_parse) sample_event
     = (Ok200 (processed_true sample_classification),
        [OpenAI_call (JStr (js ''Please send the contract by Monday, urgent!'')) (JStr (js ''Alice'')),
         Sheets_call sample_record])"
proof -
  let ?E = "sample_env (Response 200 (completion sample_json)) (Response 200 JNull) sample_parse"
  let ?B = "JStr (js ''Please send the contract by Monday, urgent!'')"
  let ?C = "JStr (js ''999@c.us'')"
  let ?S = "JStr (js ''Alice'')"
  have 1: "webhook_filter sample_event = Inr (Proceed ?B ?C ?S)" by code_simp
  have 2: "fst (classifyWithGPT ?E ?B ?S) = Inr sample_classification" by code_simp
  have 3: "get_prop sample_classification (js ''isActionItem'') = Inr (JBool True)" by code_simp
  have 4: "get_prop sample_classification (js ''responsible'') = Inr (JStr (js ''Alice''))" by code_simp
  have 5: "get_prop sample_classification (js ''urgency'') = Inr (JStr (js ''Urgent''))" by code_simp
  have 6: "get_prop sample_classification (js ''due'') = Inr (JStr (js ''Monday''))" by code_simp
  have 7: "now_iso ?E = js ''2024-05-01T10:00:00.000Z''" by (simp add: sample_env_def)
  have 8: "js ''Alice'' \<noteq> []" "js ''Urgent'' \<noteq> []" "js ''Monday'' \<noteq> []" by (simp_all add: js_def)
  show ?thesis
    using action_item_record [OF 1 2 3 4 5 6] 7 8 by (simp add: sample_record_def)
qed

text \<open>
  C7 as stated fails: a classification with \<open>responsible: ""\<close> and \<open>due: ""\<close>, both
  present, gives a record with \<open>Unknown\<close> and \<open>None\<close>, not the classification's values.
\<close>

theorem action_item_record_counterexample:
  "get_prop blank_classification (js ''isActionItem'') = Inr (JBool True)
   \<and> get_prop blank_classification (js ''responsible'') = Inr (JStr [])
   \<and> get_prop blank_classification (js ''due'') = Inr (JStr [])
   \<and> webhook (sample_env (Response 200 (completion blank_json)) (Response 200 JNull) blank_parse) sample_event
     = (Ok200 (processed_true blank_classification),
        [OpenAI_call (JStr (js ''Please send the contract by Monday, urgent!'')) (JStr (js ''Alice'')),
         Sheets_call
           (JObj [(js ''timestamp'', JStr (js ''2024-05-01T10:00:00.000Z'')),
                  (js ''source'', JStr (js ''Alice'')),
                  (js ''message'', JStr (js ''Please send the contract by Monday, urgent!'')),
                  (js ''responsible'', JStr (js ''Unknown'')),
                  (js ''urgency'', JStr (js ''Low'')),
                  (js ''due'', JStr (js ''None'')),
                  (js ''status'', JStr (js ''Open'')),
                  (js ''chatId'', JStr (js ''999@c.us''))])])"
  by code_simp

section \<open>The sink\<close>

lemma classify_try_sheets_post:
  "classify_try (env\<lparr>sheets_post := f\<rparr>) message sourceName = classify_try env message sourceName"
proof -
  have "JSON_parse (env\<lparr>sheets_post := f\<rparr>) = JSON_parse env"
    and "openai_post (env\<lparr>sheets_post := f\<rparr>) = openai_post env"
    by simp_all
  then show ?thesis unfolding classify_try_def by (simp only:)
qed

lemma classifyWithGPT_sheets_post [simp]:
  "classifyWithGPT (env\<lparr>sheets_post := f\<rparr>) message sourceName = classifyWithGPT env message sourceName"
  unfolding classifyWithGPT_def classify_try_sheets_post ..

lemma sheetData_sheets_post [simp]:
  "sheetData (env\<lparr>sheets_post := f\<rparr>) sourceName body chatId classification =
   sheetData env sourceName body chatId classification"
  by (simp add: sheetData_def)

lemma webhook_response_sheets_post:
  "fst (webhook (env\<lparr>sheets_post := f\<rparr>) payload) = fst (webhook env payload)"
  by (simp add: webhook_def writeToGoogleSheets_def split: sum.splits step.splits prod.splits)

text \<open>
  C9, as the code has it. \<open>writeToGoogleSheets\<close> returns \<open>true\<close> exactly on a 2xx response
  and \<open>false\<close> otherwise, and throws nothing. The handler drops that result: its response
  is the same whatever the spreadsheet endpoint answers, and for a classification whose
  \<open>isActionItem\<close> is \<open>true\<close> it is \<open>{status: 'processed', isActionItem: true,
  classification}\<close>.
\<close>

theorem sink_result_discarded:
  "fst (writeToGoogleSheets env data) =
     (case sheets_post env data of NetworkError \<Rightarrow> False | Response st r \<Rightarrow> 200 \<le> st \<and> st < 300)
   \<and> fst (webhook (env\<lparr>sheets_post := f\<rparr>) payload) = fst (webhook env payload)
   \<and> (webhook_filter payload = Inr (Proceed body chatId sourceName)
       \<and> fst (classifyWithGPT env body sourceName) = Inr classification
       \<and> get_prop classification (js ''isActionItem'') = Inr (JBool True)
      \<longrightarrow> fst (webhook env payload) = Ok200 (processed_true classification))"
proof (intro conjI impI)
  show "fst (writeToGoogleSheets env data) =
     (case sheets_post env data of NetworkError \<Rightarrow> False | Response st r \<Rightarrow> 200 \<le> st \<and> st < 300)"
    by (simp add: writeToGoogleSheets_def axios_post_def split: http_result.splits)
  show "fst (webhook (env\<lparr>sheets_post := f\<rparr>) payload) = fst (webhook env payload)"
    by (rule webhook_response_sheets_post)
next
  assume a: "webhook_filter payload = Inr (Proceed body chatId sourceName)
       \<and> fst (classifyWithGPT env body sourceName) = Inr classification
       \<and> get_prop classification (js ''isActionItem'') = Inr (JBool True)"
  then have "\<not> nullish classification" by (cases classification) auto
  then obtain r u d where "get_prop classification (js ''responsible'') = Inr r"
    "get_prop classification (js ''urgency'') = Inr u" "get_prop classification (js ''due'') = Inr d"
    using get_prop_defined by metis
  from sheetData_value [OF this] a
  show "fst (webhook env payload) = Ok200 (processed_true classification)"
    using webhook_action_item [of payload body chatId sourceName env classification "JBool True"]
    by simp
qed

theorem sink_result_discarded_witness:
  "fst (writeToGoogleSheets (sample_env (Response 200 (completion sample_json)) (Response 503 JNull) sample_parse) sample_record)
     = False
   \<and> fst (webhook (sample_env (Response 200 (completion sample_json)) (Response 503 JNull) sample_parse) sample_event)
     = Ok200 (processed_true sample_classification)"
proof -
  let ?E = "sample_env (Response 200 (completion sample_json)) (Response 503 JNull) sample_parse"
  let ?B = "JStr (js ''Please send the contract by Monday, urgent!'')"
  let ?C = "JStr (js ''999@c.us'')"
  let ?S = "JStr (js ''Alice'')"
  have 0: "sheets_post ?E sample_record = Response 503 JNull" by (simp add: sample_env_def)
  have 1: "webhook_filter sample_event = Inr (Proceed ?B ?C ?S)" by code_simp
  have 2: "fst (classifyWithGPT ?E ?B ?S) = Inr sample_classification" by code_simp
  have 3: "get_prop sample_classification (js ''isActionItem'') = Inr (JBool True)" by code_simp
  show ?thesis
    using sink_result_discarded [where env = ?E and data = sample_record and payload = sample_event
        and body = ?B and chatId = ?C and sourceName = ?S and classification = sample_classification]
      0 1 2 3
    by simp
qed

text \<open>
  C9 as stated fails where it has the result folded into the response: with the sink up
  and with the sink down, \<open>writeToGoogleSheets\<close> returns \<open>true\<close> and \<open>false\<close>, and the
  handler sends the same response, which holds no trace of the result.
\<close>

theorem sink_result_not_reported_counterexample:
  "fst (writeToGoogleSheets (sample_env (Response 200 (completion sample_json)) (Response 200 JNull) sample_parse) sample_record)
     = True
   \<and> fst (writeToGoogleSheets (sample_env (Response 200 (completion sample_json)) NetworkError sample_parse) sample_record)
     = False
   \<and> webhook (sample_env (Response 200 (completion sample_json)) (Response 200 JNull) sample_parse) sample_event
     = (Ok200 (processed_true sample_classification),
        [OpenAI_call (JStr (js ''Please send the contract by Monday, urgent!'')) (JStr (js ''Alice'')),
         Sheets_call sample_record])
   \<and> webhook (sample_env (Response 200 (completion sample_json)) NetworkError sample_parse) sample_event
     = (Ok200 (processed_true sample_classification),
        [OpenAI_call (JStr (js ''Please send the contract by Monday, urgent!'')) (JStr (js ''Alice'')),
         Sheets_call sample_record])"
  by code_simp

section \<open>The event type\<close>

lemma starts_with_iff: "starts_with s t \<longleftrightarrow> (\<exists>b. s = t @ b)"
  by (induction s t rule: starts_with.induct) auto

lemma includes_str_iff: "includes_str s t \<longleftrightarrow> (\<exists>a b. s = a @ t @ b)"
proof (induction s)
  case Nil
  then show ?case by auto
next
  case (Cons d s)
  show ?case
  proof
    assume "includes_str (d # s) t"
    then consider "starts_with (d # s) t" | "includes_str s t" by auto
    then show "\<exists>a b. d # s = a @ t @ b"
    proof cases
      case 1
      then obtain b where "d # s = [] @ t @ b" by (auto simp: starts_with_iff)
      then show ?thesis by blast
    next
      case 2
      then obtain a b where "s = a @ t @ b" using Cons.IH by blast
      then have "d # s = (d # a) @ t @ b" by simp
      then show ?thesis by blast
    qed
  next
    assume "\<exists>a b. d # s = a @ t @ b"
    then obtain a b where ab: "d # s = a @ t @ b" by blast
    show "includes_str (d # s) t"
    proof (cases a)
      case Nil
      with ab have "starts_with (d # s) t" by (auto simp: starts_with_iff)
      then show ?thesis by simp
    next
      case (Cons x a')
      with ab have "s = a' @ t @ b" by simp
      then have "includes_str s t" using Cons.IH by blast
      then show ?thesis by simp
    qed
  qed
qed

lemma event_of_value:
  assumes "get_prop payload (js ''event'') = Inr e"
  shows "event_of payload = Inr (if truthy e then e else JStr (js ''message''))"
  using assms by (simp add: event_of_def)

lemma webhook_non_message:
  assumes "event_of payload = Inr event" and "js_includes event (js ''message'') = Inr False"
  shows "webhook env payload = (Ok200 (skipped (js ''non-message event'')), [])"
  using assms by (simp add: webhook_def webhook_filter_def)

lemma webhook_event_throws:
  assumes "event_of payload = Inr event" and "js_includes event (js ''message'') = Inl x"
  shows "webhook env payload = (Err500 x, [])"
  using assms by (simp add: webhook_def webhook_filter_def)

text \<open>
  C8, as the code has it. The event-type tag is \<open>payload.event\<close> when that is truthy and
  \<open>message\<close> otherwise: when the field is absent, and also when it is the empty string,
  \<open>null\<close>, \<open>false\<close> or 0. Whenever the tag is a string that does not contain \<open>message\<close>,
  the handler answers \<open>{status: 'skipped', reason: 'non-message event'}\<close> and makes no
  outbound call.
\<close>

theorem event_tag_skip:
  assumes "get_prop payload (js ''event'') = Inr e"
  shows "event_of payload = Inr (if truthy e then e else JStr (js ''message''))
     \<and> (e = JUndefined \<longrightarrow> event_of payload = Inr (JStr (js ''message'')))
     \<and> (\<forall>tag. event_of payload = Inr (JStr tag) \<and> \<not> includes_str tag (js ''message'') \<longrightarrow>
          webhook env payload = (Ok200 (skipped (js ''non-message event'')), []))"
proof (intro conjI allI impI)
  show v: "event_of payload = Inr (if truthy e then e else JStr (js ''message''))"
    using assms by (rule event_of_value)
  show "event_of payload = Inr (JStr (js ''message''))" if "e = JUndefined"
    using v that by simp
  show "webhook env payload = (Ok200 (skipped (js ''non-message event'')), [])"
    if "event_of payload = Inr (JStr tag) \<and> \<not> includes_str tag (js ''message'')" for tag
    using that by (intro webhook_non_message [of payload "JStr tag"]) simp_all
qed

theorem event_tag_skip_witness:
  "includes_str (js ''message.ack'') (js ''message'')
   \<and> \<not> includes_str (js ''session.status'') (js ''message'')
   \<and> event_of (JObj [(js ''body'', JStr (js ''hello''))]) = Inr (JStr (js ''message''))
   \<and> webhook (sample_env NetworkError NetworkError sample_parse)
        (JObj [(js ''event'', JStr (js ''session.status'')), (js ''payload'', JObj [(js ''body'', JStr (js ''hello''))])])
      = (Ok200 (skipped (js ''non-message event'')), [])"
proof -
  let ?E = "sample_env NetworkError NetworkError sample_parse"
  let ?p = "JObj [(js ''event'', JStr (js ''session.status'')), (js ''payload'', JObj [(js ''body'', JStr (js ''hello''))])]"
  let ?q = "JObj [(js ''body'', JStr (js ''hello''))]"
  have 1: "get_prop ?p (js ''event'') = Inr (JStr (js ''session.status''))" by code_simp
  have 2: "get_prop ?q (js ''event'') = Inr JUndefined" by code_simp
  have 3: "includes_str (js ''message.ack'') (js ''message'')" by code_simp
  have 4: "\<not> includes_str (js ''session.status'') (js ''message'')" by code_simp
  have 5: "js ''session.status'' \<noteq> []" by (simp add: js_def)
  have a: "event_of ?q = Inr (JStr (js ''message''))"
    using event_tag_skip [OF 2, of ?E] by simp
  have b: "webhook ?E ?p = (Ok200 (skipped (js ''non-message event'')), [])"
    using event_tag_skip [OF 1, of ?E] 4 5 by simp
  from 3 4 a b show ?thesis by (intro conjI)
qed

text \<open>
  C8 as stated fails: \<open>event: ""\<close> is present and does not contain \<open>message\<close>, yet the tag
  becomes \<open>message\<close> and the event is processed as a message.
\<close>

theorem event_tag_empty_counterexample:
  "get_prop (JObj [(js ''event'', JStr []), (js ''body'', JStr (js ''hello''))]) (js ''event'') = Inr (JStr [])
   \<and> \<not> includes_str [] (js ''message'')
   \<and> event_of (JObj [(js ''event'', JStr []), (js ''body'', JStr (js ''hello''))]) = Inr (JStr (js ''message''))
   \<and> webhook (sample_env NetworkError NetworkError sample_parse)
        (JObj [(js ''event'', JStr []), (js ''body'', JStr (js ''hello''))])
      = (Ok200 processed_false, [OpenAI_call (JStr (js ''hello'')) (JStr (js ''Unknown''))])"
  by code_simp

section \<open>An event type that is not a string\<close>

lemma includes_str_self: "includes_str s s"
  unfolding includes_str_iff by (metis append_Nil append_Nil2)

lemma webhook_filter_as_message:
  assumes "event_of (JObj fs) = Inr event" and "js_includes event (js ''message'') = Inr True"
  shows "webhook_filter (JObj fs) = webhook_filter (JObj ((js ''event'', JStr (js ''message'')) # fs))"
proof -
  let ?P = "JObj fs" and ?Q = "JObj ((js ''event'', JStr (js ''message'')) # fs)"
  have e: "event_of ?Q = Inr (JStr (js ''message''))"
    by (simp add: event_of_def js_def)
  have i: "js_includes (JStr (js ''message'')) (js ''message'') = Inr True"
    by (simp add: includes_str_self)
  have k: "get_prop ?Q k = get_prop ?P k" if "k \<noteq> js ''event''" for k
    using that by simp
  have r: "body_of ?Q = body_of ?P" "fromMe_of ?Q = fromMe_of ?P" "chatId_of ?Q = chatId_of ?P"
    "sourceName_of ?Q c = sourceName_of ?P c" for c
    by (simp_all add: body_of_def fromMe_of_def chatId_of_def sourceName_of_def js_def)
  obtain p where p: "get_prop ?P (js ''payload'') = Inr p" by simp
  then have q: "get_prop ?Q (js ''payload'') = Inr p" by (simp add: js_def)
  show ?thesis
  proof (cases "truthy p")
    case True
    with p q have "messageData_of ?P = Inr p" "messageData_of ?Q = Inr p"
      by (simp_all add: messageData_of_def)
    with assms e i show ?thesis
      by (simp add: webhook_filter_def)
  next
    case False
    with p q have m: "messageData_of ?P = Inr ?P" "messageData_of ?Q = Inr ?Q"
      by (simp_all add: messageData_of_def)
    show ?thesis
      unfolding webhook_filter_def assms e i m r bindE_simps by simp
  qed
qed

lemma webhook_as_message:
  assumes "event_of (JObj fs) = Inr event" and "js_includes event (js ''message'') = Inr True"
  shows "webhook env (JObj fs) = webhook env (JObj ((js ''event'', JStr (js ''message'')) # fs))"
  unfolding webhook_def webhook_filter_as_message [OF assms] ..

text \<open>
  C10, as the code has it. For an event field that is present: a number other than zero,
  \<open>true\<close> or an object that is not an array has no \<open>includes\<close> to call, and the handler
  answers 500; \<open>null\<close>, \<open>false\<close> and 0 are replaced by \<open>message\<close>, and the event is handled
  as the same payload with \<open>event: 'message'\<close> is; an array that has the element
  \<open>message\<close> is handled in that way too, and an array without it is skipped as a
  non-message event.
\<close>

theorem event_not_string:
  assumes "map_of fs (js ''event'') = Some e"
  shows "(throwing_event e \<longrightarrow> webhook env (JObj fs) = (Err500 TypeError, []))
   \<and> (e = JNull \<or> e = JBool False \<or> e = JNum 0 \<longrightarrow>
        webhook env (JObj fs) = webhook env (JObj ((js ''event'', JStr (js ''message'')) # fs)))
   \<and> (\<forall>xs. e = JArr xs \<and> JStr (js ''message'') \<in> set xs \<longrightarrow>
        webhook env (JObj fs) = webhook env (JObj ((js ''event'', JStr (js ''message'')) # fs)))
   \<and> (\<forall>xs. e = JArr xs \<and> JStr (js ''message'') \<notin> set xs \<longrightarrow>
        webhook env (JObj fs) = (Ok200 (skipped (js ''non-message event'')), []))"
proof (intro conjI allI impI)
  have g: "get_prop (JObj fs) (js ''event'') = Inr e"
    using assms by simp
  note v = event_of_value [OF g]
  {
    assume t: "throwing_event e"
    then have "truthy e" and "js_includes e (js ''message'') = Inl TypeError"
      by (cases e; simp)+
    with v show "webhook env (JObj fs) = (Err500 TypeError, [])"
      by (intro webhook_event_throws [of "JObj fs" e]) simp_all
  }
  {
    assume "e = JNull \<or> e = JBool False \<or> e = JNum 0"
    then have "\<not> truthy e" by auto
    with v have "event_of (JObj fs) = Inr (JStr (js ''message''))" by simp
    then show "webhook env (JObj fs) = webhook env (JObj ((js ''event'', JStr (js ''message'')) # fs))"
      by (rule webhook_as_message) (simp add: includes_str_self)
  }
  {
    fix xs assume "e = JArr xs \<and> JStr (js ''message'') \<in> set xs"
    with v have "event_of (JObj fs) = Inr (JArr xs)" "js_includes (JArr xs) (js ''message'') = Inr True"
      by simp_all
    then show "webhook env (JObj fs) = webhook env (JObj ((js ''event'', JStr (js ''message'')) # fs))"
      by (rule webhook_as_message)
  }
  {
    fix xs assume "e = JArr xs \<and> JStr (js ''message'') \<notin> set xs"
    with v have "event_of (JObj fs) = Inr (JArr xs)" "js_includes (JArr xs) (js ''message'') = Inr False"
      by simp_all
    then show "webhook env (JObj fs) = (Ok200 (skipped (js ''non-message event'')), [])"
      by (rule webhook_non_message)
  }
qed

theorem event_not_string_witness:
  "webhook (sample_env NetworkError NetworkError sample_parse)
     (JObj [(js ''event'', JNum 7), (js ''body'', JStr (js ''hello''))]) = (Err500 TypeError, [])
   \<and> webhook (sample_env NetworkError NetworkError sample_parse)
     (JObj [(js ''event'', JObj [(js ''type'', JStr (js ''message''))]), (js ''body'', JStr (js ''hello''))])
      = (Err500 TypeError, [])
   \<and> webhook (sample_env NetworkError NetworkError sample_parse)
     (JObj [(js ''event'', JNull), (js ''body'', JStr (js ''hello''))])
      = webhook (sample_env NetworkError NetworkError sample_parse)
          (JObj [(js ''event'', JStr (js ''message'')), (js ''event'', JNull), (js ''body'', JStr (js ''hello''))])
   \<and> webhook (sample_env NetworkError NetworkError sample_parse)
     (JObj [(js ''event'', JArr [JStr (js ''status''), JStr (js ''message'')]), (js ''body'', JStr (js ''hello''))])
      = webhook (sample_env NetworkError NetworkError sample_parse)
          (JObj [(js ''event'', JStr (js ''message'')),
                 (js ''event'', JArr [JStr (js ''status''), JStr (js ''message'')]),
                 (js ''body'', JStr (js ''hello''))])
   \<and> webhook (sample_env NetworkError NetworkError sample_parse)
     (JObj [(js ''event'', JArr [JStr (js ''status'')]), (js ''body'', JStr (js ''hello''))])
      = (Ok200 (skipped (js ''non-message event'')), [])"
proof -
  let ?E = "sample_env NetworkError NetworkError sample_parse"
  let ?o = "JObj [(js ''type'', JStr (js ''message''))]"
  let ?B = "(js ''body'', JStr (js ''hello''))"
  have m: "map_of [(js ''event'', e), ?B] (js ''event'') = Some e" for e
    by simp
  have s: "JStr (js ''message'') \<in> set [JStr (js ''status''), JStr (js ''message'')]"
    "JStr (js ''message'') \<notin> set [JStr (js ''status'')]"
    by (simp_all add: js_def)
  have 1: "webhook ?E (JObj [(js ''event'', JNum 7), ?B]) = (Err500 TypeError, [])"
    using event_not_string [OF m, of "JNum 7" ?E] by simp
  have 2: "webhook ?E (JObj [(js ''event'', ?o), ?B]) = (Err500 TypeError, [])"
    using event_not_string [OF m, of ?o ?E] by simp
  have 3: "webhook ?E (JObj [(js ''event'', JNull), ?B])
        = webhook ?E (JObj [(js ''event'', JStr (js ''message'')), (js ''event'', JNull), ?B])"
    using event_not_string [OF m, of JNull ?E] by simp
  have 4: "webhook ?E (JObj [(js ''event'', JArr [JStr (js ''status''), JStr (js ''message'')]), ?B])
        = webhook ?E (JObj [(js ''event'', JStr (js ''message'')),
                 (js ''event'', JArr [JStr (js ''status''), JStr (js ''message'')]), ?B])"
    using event_not_string [OF m, of "JArr [JStr (js ''status''), JStr (js ''message'')]" ?E] s(1)
    by blast
  have 5: "webhook ?E (JObj [(js ''event'', JArr [JStr (js ''status'')]), ?B])
        = (Ok200 (skipped (js ''non-message event'')), [])"
    using event_not_string [OF m, of "JArr [JStr (js ''status'')]" ?E] s(2)
    by blast
  from 1 2 3 4 5 show ?thesis by (intro conjI)
qed

text \<open>
  C10 as stated fails: \<open>event: false\<close>, \<open>event: 0\<close> and \<open>event: null\<close> are replaced by
  \<open>message\<close> and the event is processed as a message; an array has \<open>includes\<close>: one with
  the element \<open>message\<close> is processed as a message, one without it is skipped as a
  non-message event.
\<close>

theorem event_not_string_counterexample:
  "webhook (sample_env NetworkError NetworkError sample_parse)
     (JObj [(js ''event'', JBool False), (js ''body'', JStr (js ''hello''))])
      = (Ok200 processed_false, [OpenAI_call (JStr (js ''hello'')) (JStr (js ''Unknown''))])
   \<and> webhook (sample_env NetworkError NetworkError sample_parse)
     (JObj [(js ''event'', JNum 0), (js ''body'', JStr (js ''hello''))])
      = (Ok200 processed_false, [OpenAI_call (JStr (js ''hello'')) (JStr (js ''Unknown''))])
   \<and> webhook (sample_env NetworkError NetworkError sample_parse)
     (JObj [(js ''event'', JNull), (js ''body'', JStr (js ''hello''))])
      = (Ok200 processed_false, [OpenAI_call (JStr (js ''hello'')) (JStr (js ''Unknown''))])
   \<and> webhook (sample_env NetworkError NetworkError sample_parse)
     (JObj [(js ''event'', JArr [JStr (js ''status''), JStr (js ''message'')]), (js ''body'', JStr (js ''hello''))])
      = (Ok200 processed_false, [OpenAI_call (JStr (js ''hello'')) (JStr (js ''Unknown''))])
   \<and> webhook (sample_env NetworkError NetworkError sample_parse)
     (JObj [(js ''event'', JArr [JStr (js ''status'')]), (js ''body'', JStr (js ''hello''))])
      = (Ok200 (skipped (js ''non-message event'')), [])"
  by code_simp

end
